theory Spec2Isabelle
  imports Complex_Main "HOL-Library.AList" "HOL-Library.Product_Lexorder"
begin

section \<open>Python values used by the scripts\<close>

text \<open>
  The three scripts (\<open>monthly_stats.py\<close>, \<open>weekly_stats.py\<close>, \<open>export_csv.py\<close>) are
  modelled function by function. Python integers are \<open>int\<close>, strings are \<open>string\<close>,
  and every exception a modelled function can raise is a value of \<open>py_error\<close>, returned
  as \<open>Inl\<close>.
\<close>

datatype py_error =
    ValueError
  | IllegalMonthError int
  | OverflowError
  | ZeroDivisionError
  | IndexError

subsection \<open>Formatting integers: \<open>str(n)\<close>, \<open>f'{n}'\<close> and \<open>f'{n:02d}'\<close>\<close>

definition digit_char :: "nat \<Rightarrow> char" where
  "digit_char d = ''0123456789'' ! d"

fun digits :: "nat \<Rightarrow> string" where
  "digits n = (if n < 10 then [digit_char n] else digits (n div 10) @ [digit_char (n mod 10)])"

declare digits.simps [simp del]

definition str_int :: "int \<Rightarrow> string" where
  "str_int i = (if i < 0 then CHR ''-'' # digits (nat (- i)) else digits (nat i))"

text \<open>
  \<open>format(i, '02d')\<close>: the sign counts towards the width of 2, zeros are inserted after it.
\<close>

definition fmt_02d :: "int \<Rightarrow> string" where
  "fmt_02d i =
     (if i < 0 then CHR ''-'' # digits (nat (- i))
      else if i < 10 then CHR ''0'' # digits (nat i)
      else digits (nat i))"

section \<open>The calendar (\<open>calendar\<close> and \<open>datetime\<close> of the standard library)\<close>

definition isleap :: "int \<Rightarrow> bool" where
  "isleap year = (year mod 4 = 0 \<and> (year mod 100 \<noteq> 0 \<or> year mod 400 = 0))"

definition mdays :: "int list" where
  "mdays = [0, 31, 28, 31, 30, 31, 30, 31, 31, 30, 31, 30, 31]"

definition DAYS_BEFORE_MONTH :: "int list" where
  "DAYS_BEFORE_MONTH = [-1, 0, 31, 59, 90, 120, 151, 181, 212, 243, 273, 304, 334]"

definition MINYEAR :: int where "MINYEAR = 1"
definition MAXYEAR :: int where "MAXYEAR = 9999"
definition MAXORDINAL :: int where "MAXORDINAL = 3652059"

definition days_before_year :: "int \<Rightarrow> int" where
  "days_before_year year =
     (let y = year - 1 in y * 365 + y div 4 - y div 100 + y div 400)"

definition days_in_month :: "int \<Rightarrow> int \<Rightarrow> int" where
  "days_in_month year month =
     (if month = 2 \<and> isleap year then 29 else mdays ! nat month)"

definition days_before_month :: "int \<Rightarrow> int \<Rightarrow> int" where
  "days_before_month year month =
     DAYS_BEFORE_MONTH ! nat month + (if month > 2 \<and> isleap year then 1 else 0)"

definition ymd2ord :: "int \<Rightarrow> int \<Rightarrow> int \<Rightarrow> int" where
  "ymd2ord year month day = days_before_year year + days_before_month year month + day"

record date =
  year :: int
  month :: int
  day :: int

text \<open>The constructor \<open>date(year, month, day)\<close> checks its fields.\<close>

definition date_new :: "int \<Rightarrow> int \<Rightarrow> int \<Rightarrow> py_error + date" where
  "date_new y m d =
     (if \<not> (MINYEAR \<le> y \<and> y \<le> MAXYEAR) then Inl ValueError
      else if \<not> (1 \<le> m \<and> m \<le> 12) then Inl ValueError
      else if \<not> (1 \<le> d \<and> d \<le> days_in_month y m) then Inl ValueError
      else Inr \<lparr>year = y, month = m, day = d\<rparr>)"

definition toordinal :: "date \<Rightarrow> int" where
  "toordinal dt = ymd2ord (year dt) (month dt) (day dt)"

definition weekday :: "date \<Rightarrow> int" where
  "weekday dt = (toordinal dt + 6) mod 7"

text \<open>\<open>calendar.weekday\<close> and \<open>calendar.monthrange\<close>.\<close>

definition calendar_weekday :: "int \<Rightarrow> int \<Rightarrow> int \<Rightarrow> py_error + int" where
  "calendar_weekday y m d =
     (let y' = (if \<not> (MINYEAR \<le> y \<and> y \<le> MAXYEAR) then 2000 + y mod 400 else y)
      in case date_new y' m d of Inl e \<Rightarrow> Inl e | Inr dt \<Rightarrow> Inr (weekday dt))"

definition monthrange :: "int \<Rightarrow> int \<Rightarrow> py_error + (int \<times> int)" where
  "monthrange y m =
     (if \<not> (1 \<le> m \<and> m \<le> 12) then Inl (IllegalMonthError m)
      else case calendar_weekday y m 1 of
             Inl e \<Rightarrow> Inl e
           | Inr day1 \<Rightarrow> Inr (day1, mdays ! nat m + (if m = 2 \<and> isleap y then 1 else 0)))"

section \<open>\<open>monthly_stats.get_month_date_range\<close>\<close>

definition get_month_date_range :: "int \<Rightarrow> int \<Rightarrow> py_error + (string \<times> string)" where
  "get_month_date_range y m =
     (let first_day = str_int y @ ''-'' @ fmt_02d m @ ''-01''
      in case monthrange y m of
           Inl e \<Rightarrow> Inl e
         | Inr r \<Rightarrow>
             (let last_day_num = snd r;
                  last_day = str_int y @ ''-'' @ fmt_02d m @ ''-'' @ fmt_02d last_day_num
              in Inr (first_day, last_day)))"

section \<open>\<open>weekly_stats.get_week_date_range\<close>\<close>

subsection \<open>\<open>date.fromordinal\<close>, \<open>strftime\<close> and adding a \<open>timedelta\<close>\<close>

definition DI400Y :: int where "DI400Y = 146097"
definition DI100Y :: int where "DI100Y = 36524"
definition DI4Y :: int where "DI4Y = 1461"

definition ord2ymd :: "int \<Rightarrow> int \<times> int \<times> int" where
  "ord2ymd n0 =
     (let n = n0 - 1;
          n400 = n div DI400Y; n = n mod DI400Y;
          y = n400 * 400 + 1;
          n100 = n div DI100Y; n = n mod DI100Y;
          n4 = n div DI4Y; n = n mod DI4Y;
          n1 = n div 365; n = n mod 365;
          y = y + n100 * 100 + n4 * 4 + n1
      in if n1 = 4 \<or> n100 = 4 then (y - 1, 12, 31)
         else
           (let leapyear = (n1 = 3 \<and> (n4 \<noteq> 24 \<or> n100 = 3));
                m = (n + 50) div 32;
                preceding = DAYS_BEFORE_MONTH ! nat m + (if m > 2 \<and> leapyear then 1 else 0)
            in if preceding > n
               then (let m' = m - 1;
                         preceding' = preceding
                           - (mdays ! nat m' + (if m' = 2 \<and> leapyear then 1 else 0))
                     in (y, m', n - preceding' + 1))
               else (y, m, n - preceding + 1)))"

definition fromordinal :: "int \<Rightarrow> py_error + date" where
  "fromordinal n = (case ord2ymd n of (y, m, d) \<Rightarrow> date_new y m d)"

text \<open>
  \<open>dt + timedelta(days=k)\<close> for a \<open>datetime\<close> at midnight: the sum of the ordinals has
  to stay within \<open>1 .. MAXORDINAL\<close>, otherwise \<open>OverflowError\<close>.
\<close>

definition add_days :: "date \<Rightarrow> int \<Rightarrow> py_error + date" where
  "add_days dt k =
     (let days = toordinal dt + k
      in if 0 < days \<and> days \<le> MAXORDINAL then fromordinal days else Inl OverflowError)"

text \<open>\<open>strftime('%Y-%m-%d')\<close>; the C library prints the year without padding.\<close>

definition strftime_Ymd :: "date \<Rightarrow> string" where
  "strftime_Ymd dt = str_int (year dt) @ ''-'' @ fmt_02d (month dt) @ ''-'' @ fmt_02d (day dt)"

subsection \<open>\<open>datetime.strptime(s, '%Y-W%W-%w')\<close>\<close>

text \<open>
  The format compiles to the regular expression
  \<^verbatim>\<open>(?P<Y>\d\d\d\d)-W(?P<W>5[0-3]|[0-4]\d|\d)-(?P<w>[0-6])\<close>, matched ignoring case
  from the start of the string; data left over after the match is an error. The strings
  the script builds hold ASCII digits only.
\<close>

definition is_digit :: "char \<Rightarrow> bool" where
  "is_digit c = (c \<in> set ''0123456789'')"

definition digit_val :: "char \<Rightarrow> int" where
  "digit_val c = int (length (takeWhile (\<lambda>d. d \<noteq> c) ''0123456789''))"

definition match_W2 :: "char \<Rightarrow> char \<Rightarrow> bool" where
  "match_W2 a b =
     ((a = CHR ''5'' \<and> b \<in> set ''0123'') \<or> (a \<in> set ''01234'' \<and> is_digit b))"

definition match_w :: "char \<Rightarrow> bool" where
  "match_w c = (c \<in> set ''0123456'')"

text \<open>The groups \<open>(Y, W, w)\<close> of a successful match, as integers.\<close>

fun match_Y_W_w :: "string \<Rightarrow> py_error + (int \<times> int \<times> int)" where
  "match_Y_W_w (y1 # y2 # y3 # y4 # dash # cw # rest) =
     (if is_digit y1 \<and> is_digit y2 \<and> is_digit y3 \<and> is_digit y4
         \<and> dash = CHR ''-'' \<and> (cw = CHR ''W'' \<or> cw = CHR ''w'')
      then
        (let Y = 1000 * digit_val y1 + 100 * digit_val y2 + 10 * digit_val y3 + digit_val y4
         in case rest of
              [a, b, d2, w] \<Rightarrow>
                if match_W2 a b \<and> d2 = CHR ''-'' \<and> match_w w
                then Inr (Y, 10 * digit_val a + digit_val b, digit_val w)
                else Inl ValueError
            | [a, d2, w] \<Rightarrow>
                if is_digit a \<and> d2 = CHR ''-'' \<and> match_w w
                then Inr (Y, digit_val a, digit_val w)
                else Inl ValueError
            | _ \<Rightarrow> Inl ValueError)
      else Inl ValueError)"
| "match_Y_W_w _ = Inl ValueError"

text \<open>\<open>_strptime._calc_julian_from_U_or_W\<close> with \<open>week_starts_Mon = True\<close>.\<close>

definition calc_julian_from_W :: "int \<Rightarrow> int \<Rightarrow> int \<Rightarrow> py_error + int" where
  "calc_julian_from_W y week_of_year day_of_week =
     (case date_new y 1 1 of
        Inl e \<Rightarrow> Inl e
      | Inr jan1 \<Rightarrow>
          (let first_weekday = weekday jan1;
               week_0_length = (7 - first_weekday) mod 7
           in if week_of_year = 0 then Inr (1 + day_of_week - first_weekday)
              else
                (let days_to_week = week_0_length + 7 * (week_of_year - 1)
                 in Inr (1 + days_to_week + day_of_week))))"

definition strptime_Y_W_w :: "string \<Rightarrow> py_error + date" where
  "strptime_Y_W_w s =
     (case match_Y_W_w s of
        Inl e \<Rightarrow> Inl e
      | Inr (Y, W, w) \<Rightarrow>
          (let wd = (if w = 0 then 6 else w - 1)
           in case calc_julian_from_W Y W wd of
                Inl e \<Rightarrow> Inl e
              | Inr julian \<Rightarrow>
                  (let y = (if julian \<le> 0 then Y - 1 else Y);
                       julian = (if julian \<le> 0
                                 then julian + (if isleap y then 366 else 365) else julian)
                   in case date_new y 1 1 of
                        Inl e \<Rightarrow> Inl e
                      | Inr jan1 \<Rightarrow> fromordinal (julian - 1 + toordinal jan1))))"

subsection \<open>The function itself\<close>

definition get_week_date_range :: "int \<Rightarrow> int \<Rightarrow> py_error + (string \<times> string)" where
  "get_week_date_range y week =
     (case strptime_Y_W_w (str_int y @ ''-W'' @ fmt_02d week @ ''-1'') of
        Inl e \<Rightarrow> Inl e
      | Inr first_day \<Rightarrow>
          (case add_days first_day 6 of
             Inl e \<Rightarrow> Inl e
           | Inr last_day \<Rightarrow> Inr (strftime_Ymd first_day, strftime_Ymd last_day)))"

section \<open>Dictionaries, floats and sorting\<close>

text \<open>
  A Python \<open>dict\<close> keeps its keys in insertion order and the scripts iterate over
  \<open>items()\<close>, so a dictionary is an association list with distinct keys:
  assigning to a present key keeps its place, a new key goes to the end.
\<close>

type_synonym ('k, 'v) pydict = "('k \<times> 'v) list"

definition dict_get :: "('k, 'v) pydict \<Rightarrow> 'k \<Rightarrow> 'v \<Rightarrow> 'v" where
  "dict_get d k dflt = (case map_of d k of None \<Rightarrow> dflt | Some v \<Rightarrow> v)"

definition dict_contains :: "('k, 'v) pydict \<Rightarrow> 'k \<Rightarrow> bool" where
  "dict_contains d k = (map_of d k \<noteq> None)"

definition dict_setitem :: "('k, 'v) pydict \<Rightarrow> 'k \<Rightarrow> 'v \<Rightarrow> ('k, 'v) pydict" where
  "dict_setitem d k v = AList.update k v d"

text \<open>\<open>d[k] += 1\<close> on a \<open>defaultdict(int)\<close>, \<open>d[k].append(x)\<close> on a
  \<open>defaultdict(list)\<close> and \<open>d[k].add(x)\<close> on a \<open>defaultdict(set)\<close>.\<close>

definition defaultdict_incr :: "('k, int) pydict \<Rightarrow> 'k \<Rightarrow> ('k, int) pydict" where
  "defaultdict_incr d k = dict_setitem d k (dict_get d k 0 + 1)"

definition defaultdict_append :: "('k, 'a list) pydict \<Rightarrow> 'k \<Rightarrow> 'a \<Rightarrow> ('k, 'a list) pydict" where
  "defaultdict_append d k x = dict_setitem d k (dict_get d k [] @ [x])"

definition defaultdict_add :: "('k, 'a set) pydict \<Rightarrow> 'k \<Rightarrow> 'a \<Rightarrow> ('k, 'a set) pydict" where
  "defaultdict_add d k x = dict_setitem d k (insert x (dict_get d k {}))"

text \<open>
  Python floats are IEEE doubles. The model is generic in the float type \<open>'f\<close> and in
  the operations the scripts use on it, so every theorem holds for whatever these
  operations compute: \<open>float_of_int\<close> is the conversion \<open>float(n)\<close>, \<open>truediv\<close> is
  \<open>a / b\<close> on two non-zero integers, \<open>fmul\<close> the product of two floats, \<open>trunc\<close> is
  \<open>int(x)\<close> and \<open>round2\<close> is \<open>round(x, 2)\<close>. An integer operand of a float
  multiplication is converted first, as Python does. Where floats are sorting keys,
  \<open>'f\<close> carries a linear order, as the finite floats computed from integers do.
\<close>

record 'f float_ops =
  float_of_int :: "int \<Rightarrow> 'f"
  truediv :: "int \<Rightarrow> int \<Rightarrow> 'f"
  fmul :: "'f \<Rightarrow> 'f \<Rightarrow> 'f"
  trunc :: "'f \<Rightarrow> int"
  round2 :: "'f \<Rightarrow> 'f"

text \<open>\<open>a / b\<close> on integers: a zero divisor raises, a zero dividend gives \<open>0.0\<close> at once.\<close>

definition py_truediv :: "'f float_ops \<Rightarrow> int \<Rightarrow> int \<Rightarrow> py_error + 'f" where
  "py_truediv F a b =
     (if b = 0 then Inl ZeroDivisionError
      else if a = 0 \<and> 0 < b then Inr (float_of_int F 0)
      else Inr (truediv F a b))"

text \<open>The exact operations on the rationals, used to run the model on examples.\<close>

definition round_half_even :: "rat \<Rightarrow> int" where
  "round_half_even q =
     (let f = \<lfloor>q\<rfloor>; r = q - of_int f
      in if r < 1 / 2 then f else if 1 / 2 < r then f + 1 else if even f then f else f + 1)"

definition exact_ops :: "rat float_ops" where
  "exact_ops =
     \<lparr>float_of_int = of_int,
      truediv = (\<lambda>a b. of_int a / of_int b),
      fmul = (\<lambda>x y. x * y),
      trunc = (\<lambda>x. if x < 0 then \<lceil>x\<rceil> else \<lfloor>x\<rfloor>),
      round2 = (\<lambda>x. of_int (round_half_even (x * 100)) / 100)\<rparr>"

text \<open>A number that is an \<open>int\<close> on one path and a \<open>float\<close> on another.\<close>

datatype 'f pynum = PyInt int | PyFloat 'f

text \<open>\<open>max(xs)\<close> and \<open>min(xs)\<close> raise \<open>ValueError\<close> on an empty list.\<close>

definition py_max :: "int list \<Rightarrow> py_error + int" where
  "py_max xs = (case xs of [] \<Rightarrow> Inl ValueError | x # rest \<Rightarrow> Inr (foldl max x rest))"

definition py_min :: "int list \<Rightarrow> py_error + int" where
  "py_min xs = (case xs of [] \<Rightarrow> Inl ValueError | x # rest \<Rightarrow> Inr (foldl min x rest))"

text \<open>
  \<open>sorted(xs, key=key, reverse=True)\<close> and \<open>xs.sort(key=key, reverse=True)\<close>: the list
  is reversed, sorted by a stable ascending sort, and reversed again.
\<close>

definition py_sorted_reverse :: "('a \<Rightarrow> 'k::linorder) \<Rightarrow> 'a list \<Rightarrow> 'a list" where
  "py_sorted_reverse key xs = rev (sort_key key (rev xs))"

text \<open>Running a fallible function over a list, stopping at the first exception.\<close>

fun map_err :: "('a \<Rightarrow> py_error + 'b) \<Rightarrow> 'a list \<Rightarrow> py_error + 'b list" where
  "map_err f [] = Inr []"
| "map_err f (x # xs) =
     (case f x of
        Inl e \<Rightarrow> Inl e
      | Inr y \<Rightarrow> (case map_err f xs of Inl e \<Rightarrow> Inl e | Inr ys \<Rightarrow> Inr (y # ys)))"

section \<open>The rows read from the store\<close>

text \<open>
  A row of the scores query (\<open>daily_scores\<close> joined with \<open>players\<close>, ordered by date and
  position) and a row of the \<open>players\<close> query. The store is an external collaborator:
  the aggregation functions take the results of their queries as arguments.
\<close>

record score_row =
  stat_date :: string
  position :: int
  score :: int
  playfab_id :: string
  display_name :: string

definition build_player_names :: "(string \<times> string) list \<Rightarrow> (string, string) pydict" where
  "build_player_names player_rows = foldl (\<lambda>d row. dict_setitem d (fst row) (snd row)) [] player_rows"

section \<open>\<open>monthly_stats.calculate_monthly_stats\<close>\<close>

subsection \<open>The accumulation loop\<close>

record monthly_acc =
  first_place_counts :: "(string, int) pydict"
  podium_counts :: "(string, int) pydict"
  top_10_counts :: "(string, int) pydict"
  participation_counts :: "(string, int) pydict"
  total_scores :: "(string, int list) pydict"
  daily_participants :: "(string, string set) pydict"

definition monthly_init :: monthly_acc where
  "monthly_init =
     \<lparr>first_place_counts = [], podium_counts = [], top_10_counts = [],
      participation_counts = [], total_scores = [], daily_participants = []\<rparr>"

definition monthly_step :: "monthly_acc \<Rightarrow> score_row \<Rightarrow> monthly_acc" where
  "monthly_step acc row =
     (let pid = playfab_id row;
          acc = acc\<lparr>participation_counts := defaultdict_incr (participation_counts acc) pid\<rparr>;
          acc = acc\<lparr>daily_participants :=
                       defaultdict_add (daily_participants acc) (stat_date row) pid\<rparr>;
          acc = acc\<lparr>total_scores := defaultdict_append (total_scores acc) pid (score row)\<rparr>;
          acc = (if position row = 0
                 then acc\<lparr>first_place_counts := defaultdict_incr (first_place_counts acc) pid\<rparr>
                 else acc);
          acc = (if position row \<le> 2
                 then acc\<lparr>podium_counts := defaultdict_incr (podium_counts acc) pid\<rparr>
                 else acc);
          acc = (if position row \<le> 9
                 then acc\<lparr>top_10_counts := defaultdict_incr (top_10_counts acc) pid\<rparr>
                 else acc)
      in acc)"

fun monthly_loop :: "monthly_acc \<Rightarrow> score_row list \<Rightarrow> monthly_acc" where
  "monthly_loop acc [] = acc"
| "monthly_loop acc (row # rows) = monthly_loop (monthly_step acc row) rows"

subsection \<open>The report\<close>

record 'f champion_entry =
  ch_playfab_id :: string
  ch_display_name :: string
  ch_first_place_count :: int
  ch_win_percentage :: "'f pynum"

record 'f podium_entry =
  pd_playfab_id :: string
  pd_display_name :: string
  pd_podium_count :: int
  pd_podium_percentage :: "'f pynum"

record top_10_entry =
  tt_playfab_id :: string
  tt_display_name :: string
  tt_top_10_count :: int

record 'f consistent_entry =
  mc_playfab_id :: string
  mc_display_name :: string
  mc_days_played :: int
  mc_average_score :: int
  mc_max_score :: int
  mc_min_score :: int
  mc_consistency_rating :: 'f

record 'f participation_stats =
  total_unique_players :: int
  total_days_tracked :: int
  avg_daily_participants :: 'f

record score_statistics =
  total_scores_recorded :: int
  average_score :: int
  highest_score :: int
  lowest_score :: int

record 'f monthly_report =
  month_period :: "string \<times> string"
  monthly_champion :: "'f champion_entry option"
  top_champions :: "'f champion_entry list"
  top_podium_finishes :: "'f podium_entry list"
  top_10_finishes :: "top_10_entry list"
  most_consistent :: "'f consistent_entry list"
  participation :: "'f participation_stats"
  score_stats :: "score_statistics option"

text \<open>\<open>(count / total_days * 100) if total_days > 0 else 0\<close>\<close>

definition percentage :: "'f float_ops \<Rightarrow> int \<Rightarrow> int \<Rightarrow> py_error + 'f pynum" where
  "percentage F count total_days =
     (if total_days > 0
      then (case py_truediv F count total_days of
              Inl e \<Rightarrow> Inl e
            | Inr q \<Rightarrow> Inr (PyFloat (fmul F q (float_of_int F 100))))
      else Inr (PyInt 0))"

text \<open>\<open>sum(xs) / len(xs)\<close>\<close>

definition mean :: "'f float_ops \<Rightarrow> int list \<Rightarrow> py_error + 'f" where
  "mean F xs = py_truediv F (sum_list xs) (int (length xs))"

definition champion_of ::
  "'f float_ops \<Rightarrow> (string, string) pydict \<Rightarrow> int \<Rightarrow> string \<times> int \<Rightarrow> py_error + 'f champion_entry" where
  "champion_of F player_names total_days item =
     (case percentage F (snd item) total_days of
        Inl e \<Rightarrow> Inl e
      | Inr pct \<Rightarrow>
          Inr \<lparr>ch_playfab_id = fst item,
               ch_display_name = dict_get player_names (fst item) ''Unknown'',
               ch_first_place_count = snd item,
               ch_win_percentage = pct\<rparr>)"

definition podium_of ::
  "'f float_ops \<Rightarrow> (string, string) pydict \<Rightarrow> int \<Rightarrow> string \<times> int \<Rightarrow> py_error + 'f podium_entry" where
  "podium_of F player_names total_days item =
     (case percentage F (snd item) total_days of
        Inl e \<Rightarrow> Inl e
      | Inr pct \<Rightarrow>
          Inr \<lparr>pd_playfab_id = fst item,
               pd_display_name = dict_get player_names (fst item) ''Unknown'',
               pd_podium_count = snd item,
               pd_podium_percentage = pct\<rparr>)"

definition top_10_of :: "(string, string) pydict \<Rightarrow> string \<times> int \<Rightarrow> top_10_entry" where
  "top_10_of player_names item =
     \<lparr>tt_playfab_id = fst item,
      tt_display_name = dict_get player_names (fst item) ''Unknown'',
      tt_top_10_count = snd item\<rparr>"

text \<open>
  One pass of the loop over \<open>participation_counts.items()\<close>: \<open>None\<close> when the player
  is not eligible, the appended entry otherwise.
\<close>

definition monthly_consistent_of ::
  "'f float_ops \<Rightarrow> (string, string) pydict \<Rightarrow> (string, int list) pydict \<Rightarrow> string \<times> int
     \<Rightarrow> py_error + 'f consistent_entry option" where
  "monthly_consistent_of F player_names tscores item =
     (let pid = fst item; days_played = snd item
      in if days_played \<ge> 5 \<and> dict_contains tscores pid
         then
           (let scores_list = dict_get tscores pid []
            in case mean F scores_list of
                 Inl e \<Rightarrow> Inl e
               | Inr avg_score \<Rightarrow>
                   (case py_max scores_list of
                      Inl e \<Rightarrow> Inl e
                    | Inr max_score \<Rightarrow>
                        (case py_min scores_list of
                           Inl e \<Rightarrow> Inl e
                         | Inr min_score \<Rightarrow>
                             Inr (Some
                               \<lparr>mc_playfab_id = pid,
                                mc_display_name = dict_get player_names pid ''Unknown'',
                                mc_days_played = days_played,
                                mc_average_score = trunc F avg_score,
                                mc_max_score = max_score,
                                mc_min_score = min_score,
                                mc_consistency_rating =
                                  fmul F (float_of_int F days_played) avg_score\<rparr>))))
         else Inr None)"

text \<open>The blocks of the function that fill the report, in the order of the source.\<close>

definition monthly_champions ::
  "'f float_ops \<Rightarrow> (string, string) pydict \<Rightarrow> int \<Rightarrow> (string, int) pydict
     \<Rightarrow> py_error + ('f champion_entry option \<times> 'f champion_entry list)" where
  "monthly_champions F player_names total_days fpc =
     (if fpc = [] then Inr (None, [])
      else
        (let top = py_sorted_reverse snd fpc
         in case top of
              [] \<Rightarrow> Inl IndexError
            | first # _ \<Rightarrow>
                (case champion_of F player_names total_days first of
                   Inl e \<Rightarrow> Inl e
                 | Inr champ \<Rightarrow>
                     (case map_err (champion_of F player_names total_days) (take 10 top) of
                        Inl e \<Rightarrow> Inl e
                      | Inr entries \<Rightarrow> Inr (Some champ, entries)))))"

definition monthly_podium ::
  "'f float_ops \<Rightarrow> (string, string) pydict \<Rightarrow> int \<Rightarrow> (string, int) pydict
     \<Rightarrow> py_error + 'f podium_entry list" where
  "monthly_podium F player_names total_days pc =
     (if pc = [] then Inr []
      else map_err (podium_of F player_names total_days) (take 10 (py_sorted_reverse snd pc)))"

definition monthly_top_10 :: "(string, string) pydict \<Rightarrow> (string, int) pydict \<Rightarrow> top_10_entry list" where
  "monthly_top_10 player_names tc =
     (if tc = [] then []
      else map (top_10_of player_names) (take 20 (py_sorted_reverse snd tc)))"

definition monthly_consistent ::
  "('f::linorder) float_ops \<Rightarrow> (string, string) pydict \<Rightarrow> monthly_acc
     \<Rightarrow> py_error + 'f consistent_entry list" where
  "monthly_consistent F player_names acc =
     (if participation_counts acc = [] then Inr []
      else
        (case map_err (monthly_consistent_of F player_names (total_scores acc))
                (participation_counts acc) of
           Inl e \<Rightarrow> Inl e
         | Inr appended \<Rightarrow>
             (let consistent = List.map_filter (\<lambda>x. x) appended
              in Inr (take 15 (py_sorted_reverse mc_consistency_rating consistent)))))"

definition monthly_score_statistics ::
  "'f float_ops \<Rightarrow> (string, int list) pydict \<Rightarrow> py_error + score_statistics option" where
  "monthly_score_statistics F tscores =
     (if tscores = [] then Inr None
      else
        (let all_scores = concat (map snd tscores)
         in case mean F all_scores of
              Inl e \<Rightarrow> Inl e
            | Inr avg \<Rightarrow>
                (case py_max all_scores of
                   Inl e \<Rightarrow> Inl e
                 | Inr hi \<Rightarrow>
                     (case py_min all_scores of
                        Inl e \<Rightarrow> Inl e
                      | Inr lo \<Rightarrow>
                          Inr (Some \<lparr>total_scores_recorded = int (length all_scores),
                                     average_score = trunc F avg,
                                     highest_score = hi,
                                     lowest_score = lo\<rparr>)))))"

text \<open>
  \<open>scores\<close>, \<open>player_rows\<close> and \<open>total_days\<close> are the results of the three queries
  of the function (the scores of the window, the \<open>players\<close> table, the number of
  distinct dates of the window).
\<close>

definition calculate_monthly_stats ::
  "('f::linorder) float_ops \<Rightarrow> score_row list \<Rightarrow> (string \<times> string) list \<Rightarrow> int
     \<Rightarrow> string \<Rightarrow> string \<Rightarrow> py_error + 'f monthly_report" where
  "calculate_monthly_stats F scores player_rows total_days start_date end_date =
     (let acc = monthly_loop monthly_init scores;
          player_names = build_player_names player_rows
      in case py_truediv F (sum_list (map (\<lambda>p. int (card (snd p))) (daily_participants acc)))
                (max (int (length (daily_participants acc))) 1) of
           Inl e \<Rightarrow> Inl e
         | Inr avg_daily \<Rightarrow>
        (case monthly_champions F player_names total_days (first_place_counts acc) of
           Inl e \<Rightarrow> Inl e
         | Inr champs \<Rightarrow>
        (case monthly_podium F player_names total_days (podium_counts acc) of
           Inl e \<Rightarrow> Inl e
         | Inr podium \<Rightarrow>
        (case monthly_consistent F player_names acc of
           Inl e \<Rightarrow> Inl e
         | Inr consistent \<Rightarrow>
        (case monthly_score_statistics F (total_scores acc) of
           Inl e \<Rightarrow> Inl e
         | Inr sstats \<Rightarrow>
             Inr \<lparr>month_period = (start_date, end_date),
                  monthly_champion = fst champs,
                  top_champions = snd champs,
                  top_podium_finishes = podium,
                  top_10_finishes = monthly_top_10 player_names (top_10_counts acc),
                  most_consistent = consistent,
                  participation =
                    \<lparr>total_unique_players = int (length (participation_counts acc)),
                     total_days_tracked = total_days,
                     avg_daily_participants = avg_daily\<rparr>,
                  score_stats = sstats\<rparr>)))))"

section \<open>\<open>weekly_stats.calculate_weekly_stats\<close>\<close>

record daily_winner =
  dw_playfab_id :: string
  dw_display_name :: string
  dw_score :: int

record weekly_acc =
  w_first_place_counts :: "(string, int) pydict"
  w_podium_counts :: "(string, int) pydict"
  w_participation_counts :: "(string, int) pydict"
  w_total_scores :: "(string, int list) pydict"
  w_daily_winners :: "(string, daily_winner) pydict"

definition weekly_init :: weekly_acc where
  "weekly_init =
     \<lparr>w_first_place_counts = [], w_podium_counts = [], w_participation_counts = [],
      w_total_scores = [], w_daily_winners = []\<rparr>"

definition weekly_step :: "weekly_acc \<Rightarrow> score_row \<Rightarrow> weekly_acc" where
  "weekly_step acc row =
     (let pid = playfab_id row;
          acc = acc\<lparr>w_participation_counts :=
                       dict_setitem (w_participation_counts acc) pid
                         (dict_get (w_participation_counts acc) pid 0 + 1)\<rparr>;
          acc = (if \<not> dict_contains (w_total_scores acc) pid
                 then acc\<lparr>w_total_scores := dict_setitem (w_total_scores acc) pid []\<rparr>
                 else acc);
          acc = acc\<lparr>w_total_scores := defaultdict_append (w_total_scores acc) pid (score row)\<rparr>;
          acc = (if position row = 0
                 then acc\<lparr>w_first_place_counts := defaultdict_incr (w_first_place_counts acc) pid,
                          w_daily_winners :=
                            dict_setitem (w_daily_winners acc) (stat_date row)
                              \<lparr>dw_playfab_id = pid,
                               dw_display_name = display_name row,
                               dw_score = score row\<rparr>\<rparr>
                 else acc);
          acc = (if position row \<le> 2
                 then acc\<lparr>w_podium_counts := defaultdict_incr (w_podium_counts acc) pid\<rparr>
                 else acc)
      in acc)"

fun weekly_loop :: "weekly_acc \<Rightarrow> score_row list \<Rightarrow> weekly_acc" where
  "weekly_loop acc [] = acc"
| "weekly_loop acc (row # rows) = weekly_loop (weekly_step acc row) rows"

record weekly_champion_entry =
  wc_playfab_id :: string
  wc_display_name :: string
  wc_first_place_count :: int

record count_entry =
  ce_playfab_id :: string
  ce_display_name :: string
  ce_count :: int

record weekly_consistent_entry =
  wk_playfab_id :: string
  wk_display_name :: string
  wk_days_played :: int
  wk_average_score :: int

record weekly_report =
  week_period :: "string \<times> string"
  daily_winners :: "(string, daily_winner) pydict"
  weekly_champion :: "weekly_champion_entry option"
  top_first_places :: "count_entry list"
  wr_top_podium_finishes :: "count_entry list"
  wr_most_consistent :: "weekly_consistent_entry list"
  wr_total_unique_players :: int

definition count_entry_of :: "(string, string) pydict \<Rightarrow> string \<times> int \<Rightarrow> count_entry" where
  "count_entry_of player_names item =
     \<lparr>ce_playfab_id = fst item,
      ce_display_name = dict_get player_names (fst item) ''Unknown'',
      ce_count = snd item\<rparr>"

definition weekly_champions ::
  "(string, string) pydict \<Rightarrow> (string, int) pydict
     \<Rightarrow> py_error + (weekly_champion_entry option \<times> count_entry list)" where
  "weekly_champions player_names fpc =
     (if fpc = [] then Inr (None, [])
      else
        (let top_first = py_sorted_reverse snd fpc
         in case top_first of
              [] \<Rightarrow> Inl IndexError
            | first # _ \<Rightarrow>
                Inr (Some \<lparr>wc_playfab_id = fst first,
                           wc_display_name = dict_get player_names (fst first) ''Unknown'',
                           wc_first_place_count = snd first\<rparr>,
                     map (count_entry_of player_names) (take 10 top_first))))"

definition weekly_podium :: "(string, string) pydict \<Rightarrow> (string, int) pydict \<Rightarrow> count_entry list" where
  "weekly_podium player_names pc =
     (if pc = [] then []
      else map (count_entry_of player_names) (take 10 (py_sorted_reverse snd pc)))"

definition weekly_consistent_of ::
  "'f float_ops \<Rightarrow> (string, string) pydict \<Rightarrow> (string, int list) pydict \<Rightarrow> string \<times> int
     \<Rightarrow> py_error + weekly_consistent_entry option" where
  "weekly_consistent_of F player_names tscores item =
     (let pid = fst item; days_played = snd item
      in if days_played \<ge> 3 \<and> dict_contains tscores pid
         then
           (case mean F (dict_get tscores pid []) of
              Inl e \<Rightarrow> Inl e
            | Inr avg_score \<Rightarrow>
                Inr (Some \<lparr>wk_playfab_id = pid,
                           wk_display_name = dict_get player_names pid ''Unknown'',
                           wk_days_played = days_played,
                           wk_average_score = trunc F avg_score\<rparr>))
         else Inr None)"

definition weekly_consistent ::
  "'f float_ops \<Rightarrow> (string, string) pydict \<Rightarrow> weekly_acc
     \<Rightarrow> py_error + weekly_consistent_entry list" where
  "weekly_consistent F player_names acc =
     (if w_participation_counts acc = [] then Inr []
      else
        (case map_err (weekly_consistent_of F player_names (w_total_scores acc))
                (w_participation_counts acc) of
           Inl e \<Rightarrow> Inl e
         | Inr appended \<Rightarrow>
             (let consistent = List.map_filter (\<lambda>x. x) appended
              in Inr (take 10
                   (py_sorted_reverse (\<lambda>x. (wk_days_played x, wk_average_score x)) consistent)))))"

definition calculate_weekly_stats ::
  "'f float_ops \<Rightarrow> score_row list \<Rightarrow> (string \<times> string) list \<Rightarrow> string \<Rightarrow> string
     \<Rightarrow> py_error + weekly_report" where
  "calculate_weekly_stats F scores player_rows start_date end_date =
     (let acc = weekly_loop weekly_init scores;
          player_names = build_player_names player_rows
      in case weekly_champions player_names (w_first_place_counts acc) of
           Inl e \<Rightarrow> Inl e
         | Inr champs \<Rightarrow>
        (case weekly_consistent F player_names acc of
           Inl e \<Rightarrow> Inl e
         | Inr consistent \<Rightarrow>
             Inr \<lparr>week_period = (start_date, end_date),
                  daily_winners = w_daily_winners acc,
                  weekly_champion = fst champs,
                  top_first_places = snd champs,
                  wr_top_podium_finishes = weekly_podium player_names (w_podium_counts acc),
                  wr_most_consistent = consistent,
                  wr_total_unique_players = int (length (w_participation_counts acc))\<rparr>))"

section \<open>The report tools: period first, queries after\<close>

text \<open>
  \<open>main\<close> of the two report scripts, from the parsed period on: the window is resolved,
  then the database file is looked for (\<open>None\<close>: it does not exist, exit code 1), then
  the statistics function runs its queries. The second component lists the queries sent
  to the store.
\<close>

datatype query = ScoresQuery string string | PlayersQuery | DayCountQuery string string

record store =
  scores_between :: "string \<Rightarrow> string \<Rightarrow> score_row list"
  players_table :: "(string \<times> string) list"
  day_count :: "string \<Rightarrow> string \<Rightarrow> int"

definition monthly_main ::
  "('f::linorder) float_ops \<Rightarrow> store option \<Rightarrow> int \<Rightarrow> int
     \<Rightarrow> (py_error + int \<times> 'f monthly_report option) \<times> query list" where
  "monthly_main F db y m =
     (case get_month_date_range y m of
        Inl e \<Rightarrow> (Inl e, [])
      | Inr (start_date, end_date) \<Rightarrow>
          (case db of
             None \<Rightarrow> (Inr (1, None), [])
           | Some st \<Rightarrow>
               (let queries = [ScoresQuery start_date end_date, PlayersQuery,
                               DayCountQuery start_date end_date]
                in case calculate_monthly_stats F (scores_between st start_date end_date)
                          (players_table st) (day_count st start_date end_date)
                          start_date end_date of
                     Inl e \<Rightarrow> (Inl e, queries)
                   | Inr stats \<Rightarrow> (Inr (0, Some stats), queries))))"

definition weekly_main ::
  "'f float_ops \<Rightarrow> store option \<Rightarrow> int \<Rightarrow> int
     \<Rightarrow> (py_error + int \<times> weekly_report option) \<times> query list" where
  "weekly_main F db y week =
     (case get_week_date_range y week of
        Inl e \<Rightarrow> (Inl e, [])
      | Inr (start_date, end_date) \<Rightarrow>
          (case db of
             None \<Rightarrow> (Inr (1, None), [])
           | Some st \<Rightarrow>
               (let queries = [ScoresQuery start_date end_date, PlayersQuery]
                in case calculate_weekly_stats F (scores_between st start_date end_date)
                          (players_table st) start_date end_date of
                     Inl e \<Rightarrow> (Inl e, queries)
                   | Inr stats \<Rightarrow> (Inr (0, Some stats), queries))))"

section \<open>\<open>export_csv\<close>\<close>

text \<open>
  A record to export is a dictionary from column names to values of some type \<open>'v\<close>.
  A CSV file is kept as the list of rows handed to the \<open>csv\<close> writer (how a row is
  quoted and terminated is the writer's business), a JSON file as its text. Files that
  are opened for writing are taken to be writable.
\<close>

datatype 'v cell = Name string | Value 'v | Restval

datatype 'v file_content = CsvFile "'v cell list list" | TextFile string

record 'v world =
  files :: "string \<rightharpoonup> 'v file_content"
  stdout :: "string list"

text \<open>\<open>DictWriter._dict_to_list\<close> with the default \<open>extrasaction='raise'\<close>.\<close>

definition dict_to_list :: "string list \<Rightarrow> (string, 'v) pydict \<Rightarrow> py_error + 'v cell list" where
  "dict_to_list fieldnames rowdict =
     (if \<exists>k \<in> set (map fst rowdict). k \<notin> set fieldnames then Inl ValueError
      else Inr (map (\<lambda>k. case map_of rowdict k of None \<Rightarrow> Restval | Some v \<Rightarrow> Value v)
                  fieldnames))"

text \<open>\<open>writerows\<close>: rows reach the file one by one until a record raises.\<close>

fun writerows ::
  "string list \<Rightarrow> 'v cell list list \<Rightarrow> (string, 'v) pydict list
     \<Rightarrow> py_error option \<times> 'v cell list list" where
  "writerows fieldnames content [] = (None, content)"
| "writerows fieldnames content (r # rs) =
     (case dict_to_list fieldnames r of
        Inl e \<Rightarrow> (Some e, content)
      | Inr row \<Rightarrow> writerows fieldnames (content @ [row]) rs)"

definition write_csv ::
  "(string, 'v) pydict list \<Rightarrow> string \<Rightarrow> 'v world \<Rightarrow> py_error option \<times> 'v world" where
  "write_csv records output_path w =
     (case records of
        [] \<Rightarrow> (None, w\<lparr>stdout := stdout w @ [''No records to export'']\<rparr>)
      | first # _ \<Rightarrow>
          (let fieldnames = map fst first;
               header = map Name fieldnames;
               written = writerows fieldnames [header] records
           in (fst written, w\<lparr>files := (files w)(output_path \<mapsto> CsvFile (snd written))\<rparr>)))"

text \<open>
  \<open>json.dump(records, f, indent=2)\<close>: the encoder's rule for a list, with the text of
  each element (a dictionary, one level in) given by \<open>enc\<close>.
\<close>

fun join :: "string \<Rightarrow> string list \<Rightarrow> string" where
  "join sep [] = []"
| "join sep [x] = x"
| "join sep (x # y # ys) = x @ sep @ join sep (y # ys)"

definition json_dump_list :: "('r \<Rightarrow> string) \<Rightarrow> 'r list \<Rightarrow> string" where
  "json_dump_list enc lst =
     (if lst = [] then ''[]''
      else
        (let newline_indent = CHR 0x0A # ''  '';
             separator = '','' @ newline_indent
         in ''['' @ newline_indent @ join separator (map enc lst) @ [CHR 0x0A] @ '']''))"

definition write_json ::
  "((string, 'v) pydict \<Rightarrow> string) \<Rightarrow> (string, 'v) pydict list \<Rightarrow> string \<Rightarrow> 'v world
     \<Rightarrow> py_error option \<times> 'v world" where
  "write_json enc records output_path w =
     (None, w\<lparr>files := (files w)(output_path \<mapsto> TextFile (json_dump_list enc records))\<rparr>)"

text \<open>
  \<open>export_player_summary\<close> copies each row of its query into a dictionary; the column
  \<open>average_score\<close> (SQL \<open>AVG\<close>: a float, or \<open>NULL\<close> for a player without scores) becomes
  \<open>round(avg, 2) if avg else 0\<close>.
\<close>

definition summary_average_score :: "'f float_ops \<Rightarrow> 'f option \<Rightarrow> 'f pynum" where
  "summary_average_score F avg =
     (case avg of
        None \<Rightarrow> PyInt 0
      | Some x \<Rightarrow> if x = float_of_int F 0 then PyInt 0 else PyFloat (round2 F x))"

section \<open>Notions of the specification\<close>

subsection \<open>The Gregorian calendar\<close>

definition gregorian_leap_year :: "int \<Rightarrow> bool" where
  "gregorian_leap_year y = (4 dvd y \<and> (\<not> 100 dvd y \<or> 400 dvd y))"

definition last_day_of_month :: "int \<Rightarrow> int \<Rightarrow> int" where
  "last_day_of_month y m =
     (if m = 2 then (if gregorian_leap_year y then 29 else 28)
      else if m = 4 \<or> m = 6 \<or> m = 9 \<or> m = 11 then 30
      else 31)"

definition first_of_next_month :: "int \<Rightarrow> int \<Rightarrow> int \<times> int" where
  "first_of_next_month y m = (if m = 12 then (y + 1, 1) else (y, m + 1))"

subsection \<open>Players, counts and scores of a window\<close>

text \<open>
  The elements of a list in the order of their first occurrence; the number of rows of a
  player that satisfy a condition; the scores of a player in row order; and the players
  with at least one row satisfying a condition, in the order of their first such row,
  each with the number of those rows.
\<close>

fun first_seen :: "'a list \<Rightarrow> 'a list" where
  "first_seen [] = []"
| "first_seen (x # xs) = x # filter (\<lambda>y. y \<noteq> x) (first_seen xs)"

definition count_rows :: "(score_row \<Rightarrow> bool) \<Rightarrow> score_row list \<Rightarrow> string \<Rightarrow> int" where
  "count_rows P rows pid = int (length (filter (\<lambda>r. P r \<and> playfab_id r = pid) rows))"

definition scores_of :: "score_row list \<Rightarrow> string \<Rightarrow> int list" where
  "scores_of rows pid = map score (filter (\<lambda>r. playfab_id r = pid) rows)"

definition tally :: "(score_row \<Rightarrow> bool) \<Rightarrow> score_row list \<Rightarrow> (string \<times> int) list" where
  "tally P rows =
     map (\<lambda>pid. (pid, count_rows P rows pid)) (first_seen (map playfab_id (filter P rows)))"

text \<open>
  The shape shared by every dictionary update of the two loops: for each row satisfying
  \<open>P\<close>, the value stored under \<open>key r\<close> (or \<open>z\<close> when absent) is replaced by \<open>g\<close> of it.
\<close>

definition accumulate ::
  "('r \<Rightarrow> bool) \<Rightarrow> ('r \<Rightarrow> 'k) \<Rightarrow> 'v \<Rightarrow> ('v \<Rightarrow> 'r \<Rightarrow> 'v) \<Rightarrow> ('k, 'v) pydict \<Rightarrow> 'r list
     \<Rightarrow> ('k, 'v) pydict" where
  "accumulate P key z g d rows =
     foldl (\<lambda>d r. if P r then dict_setitem d (key r) (g (dict_get d (key r) z) r) else d) d rows"

definition players :: "score_row list \<Rightarrow> string list" where
  "players rows = first_seen (map playfab_id rows)"

text \<open>
  The counter that both scripts keep under the name \<open>days_played\<close> (monthly
  \<open>participation_counts\<close>, weekly the length of the player's score list): one for each
  row of the player. The specification's data model defines days played as the number of
  distinct dates on which the player has a row, which is \<open>distinct_days\<close>; the two agree
  when no player has two rows on one date.
\<close>

definition days_played :: "score_row list \<Rightarrow> string \<Rightarrow> int" where
  "days_played rows pid = count_rows (\<lambda>r. True) rows pid"

definition distinct_days :: "score_row list \<Rightarrow> string \<Rightarrow> int" where
  "distinct_days rows pid =
     int (length (remdups (map stat_date (filter (\<lambda>r. playfab_id r = pid) rows))))"


subsection \<open>Stable descending order\<close>

text \<open>
  \<open>ys\<close> is \<open>xs\<close> sorted by descending key with a stable sort: the keys never increase
  along \<open>ys\<close>, and for every key the elements carrying it are the same, in the same
  order, in both lists.
\<close>

definition stable_desc_sorted_by :: "('a \<Rightarrow> 'k::linorder) \<Rightarrow> 'a list \<Rightarrow> 'a list \<Rightarrow> bool" where
  "stable_desc_sorted_by key xs ys =
     (sorted_wrt (\<lambda>a b. key b \<le> key a) ys
      \<and> (\<forall>k \<in> set (map key xs @ map key ys).
            filter (\<lambda>x. key x = k) ys = filter (\<lambda>x. key x = k) xs))"

subsection \<open>Values that cannot raise\<close>

text \<open>
  The float \<open>a / b\<close> for a positive divisor, the mean of a non-empty list, and the
  percentage and the report entries built from them.
\<close>

definition quotient :: "'f float_ops \<Rightarrow> int \<Rightarrow> int \<Rightarrow> 'f" where
  "quotient F a b = (if a = 0 then float_of_int F 0 else truediv F a b)"

definition float_mean :: "'f float_ops \<Rightarrow> int list \<Rightarrow> 'f" where
  "float_mean F xs = quotient F (sum_list xs) (int (length xs))"

definition percent_value :: "'f float_ops \<Rightarrow> int \<Rightarrow> int \<Rightarrow> 'f pynum" where
  "percent_value F count total_days =
     (if total_days > 0 then PyFloat (fmul F (quotient F count total_days) (float_of_int F 100))
      else PyInt 0)"

definition champion_entry ::
  "'f float_ops \<Rightarrow> (string, string) pydict \<Rightarrow> int \<Rightarrow> string \<times> int \<Rightarrow> 'f champion_entry" where
  "champion_entry F player_names total_days item =
     \<lparr>ch_playfab_id = fst item,
      ch_display_name = dict_get player_names (fst item) ''Unknown'',
      ch_first_place_count = snd item,
      ch_win_percentage = percent_value F (snd item) total_days\<rparr>"

definition podium_entry ::
  "'f float_ops \<Rightarrow> (string, string) pydict \<Rightarrow> int \<Rightarrow> string \<times> int \<Rightarrow> 'f podium_entry" where
  "podium_entry F player_names total_days item =
     \<lparr>pd_playfab_id = fst item,
      pd_display_name = dict_get player_names (fst item) ''Unknown'',
      pd_podium_count = snd item,
      pd_podium_percentage = percent_value F (snd item) total_days\<rparr>"

definition consistent_entry ::
  "'f float_ops \<Rightarrow> (string, string) pydict \<Rightarrow> score_row list \<Rightarrow> string \<Rightarrow> 'f consistent_entry" where
  "consistent_entry F player_names rows pid =
     \<lparr>mc_playfab_id = pid,
      mc_display_name = dict_get player_names pid ''Unknown'',
      mc_days_played = days_played rows pid,
      mc_average_score = trunc F (float_mean F (scores_of rows pid)),
      mc_max_score = Max (set (scores_of rows pid)),
      mc_min_score = Min (set (scores_of rows pid)),
      mc_consistency_rating =
        fmul F (float_of_int F (days_played rows pid)) (float_mean F (scores_of rows pid))\<rparr>"

definition weekly_consistent_entry ::
  "'f float_ops \<Rightarrow> (string, string) pydict \<Rightarrow> score_row list \<Rightarrow> string \<Rightarrow> weekly_consistent_entry" where
  "weekly_consistent_entry F player_names rows pid =
     \<lparr>wk_playfab_id = pid,
      wk_display_name = dict_get player_names pid ''Unknown'',
      wk_days_played = days_played rows pid,
      wk_average_score = trunc F (float_mean F (scores_of rows pid))\<rparr>"

subsection \<open>Rankings\<close>

definition first_place :: "score_row \<Rightarrow> bool" where
  "first_place r = (position r = 0)"

definition on_podium :: "score_row \<Rightarrow> bool" where
  "on_podium r = (position r \<le> 2)"

definition in_top_10 :: "score_row \<Rightarrow> bool" where
  "in_top_10 r = (position r \<le> 9)"

text \<open>The player and the counter of an entry of a ranking list.\<close>

definition champion_pair :: "'f champion_entry \<Rightarrow> string \<times> int" where
  "champion_pair c = (ch_playfab_id c, ch_first_place_count c)"

definition podium_pair :: "'f podium_entry \<Rightarrow> string \<times> int" where
  "podium_pair p = (pd_playfab_id p, pd_podium_count p)"

definition top_10_pair :: "top_10_entry \<Rightarrow> string \<times> int" where
  "top_10_pair t = (tt_playfab_id t, tt_top_10_count t)"

definition count_pair :: "count_entry \<Rightarrow> string \<times> int" where
  "count_pair c = (ce_playfab_id c, ce_count c)"

text \<open>
  A ranking over the aggregates of all players of the window, each with its counter
  (0 for a player without a matching row), sorted and truncated.
\<close>

definition ranking_of_all_players ::
  "nat \<Rightarrow> (score_row \<Rightarrow> bool) \<Rightarrow> score_row list \<Rightarrow> (string \<times> int) list" where
  "ranking_of_all_players n P rows =
     take n (py_sorted_reverse snd (map (\<lambda>pid. (pid, count_rows P rows pid)) (players rows)))"

text \<open>
  The entries from which the scripts build the consistency ranking, in the order of the
  players' first rows, with \<open>days_played\<close> the number of rows of the player: monthly
  the number and the rating, its product with the floating-point mean score; weekly the
  number and the mean score truncated to an integer, which is what the weekly script
  stores under \<open>average_score\<close> and sorts by.
\<close>

definition monthly_eligible :: "'f float_ops \<Rightarrow> score_row list \<Rightarrow> (string \<times> int \<times> 'f) list" where
  "monthly_eligible F rows =
     map (\<lambda>pid. (pid, days_played rows pid,
                  fmul F (float_of_int F (days_played rows pid))
                    (float_mean F (scores_of rows pid))))
       (filter (\<lambda>pid. 5 \<le> days_played rows pid) (players rows))"

definition weekly_eligible :: "'f float_ops \<Rightarrow> score_row list \<Rightarrow> (string \<times> int \<times> int) list" where
  "weekly_eligible F rows =
     map (\<lambda>pid. (pid, days_played rows pid, trunc F (float_mean F (scores_of rows pid))))
       (filter (\<lambda>pid. 3 \<le> days_played rows pid) (players rows))"

definition monthly_consistency_triple :: "'f consistent_entry \<Rightarrow> string \<times> int \<times> 'f" where
  "monthly_consistency_triple c = (mc_playfab_id c, mc_days_played c, mc_consistency_rating c)"

definition weekly_consistency_triple :: "weekly_consistent_entry \<Rightarrow> string \<times> int \<times> int" where
  "weekly_consistency_triple c = (wk_playfab_id c, wk_days_played c, wk_average_score c)"

text \<open>
  The consistency rankings in the words of the specification: days played are the
  distinct dates of the player, the average score is the floating-point mean of the
  player's scores; the weekly ranking orders the players with at least 3 days by
  descending pair of days and average, the monthly one those with at least 5 days by
  descending product of days and average.
\<close>

definition claimed_weekly_ranking ::
  "('f::linorder) float_ops \<Rightarrow> score_row list \<Rightarrow> (string \<times> int \<times> 'f) list" where
  "claimed_weekly_ranking F rows =
     take 10 (py_sorted_reverse snd
       (map (\<lambda>pid. (pid, distinct_days rows pid, float_mean F (scores_of rows pid)))
          (filter (\<lambda>pid. 3 \<le> distinct_days rows pid) (players rows))))"

definition claimed_monthly_ranking ::
  "('f::linorder) float_ops \<Rightarrow> score_row list \<Rightarrow> (string \<times> int \<times> 'f) list" where
  "claimed_monthly_ranking F rows =
     take 15 (py_sorted_reverse (\<lambda>x. snd (snd x))
       (map (\<lambda>pid. (pid, distinct_days rows pid,
                    fmul F (float_of_int F (distinct_days rows pid))
                      (float_mean F (scores_of rows pid))))
          (filter (\<lambda>pid. 5 \<le> distinct_days rows pid) (players rows))))"

subsection \<open>Example windows\<close>

definition mk_row :: "string \<Rightarrow> int \<Rightarrow> int \<Rightarrow> string \<Rightarrow> score_row" where
  "mk_row d p s pid =
     \<lparr>stat_date = d, position = p, score = s, playfab_id = pid, display_name = pid\<rparr>"

text \<open>The two-day scenario of the specification.\<close>

definition scenario_rows :: "score_row list" where
  "scenario_rows =
     [mk_row ''2024-01-01'' 0 100 ''A'', mk_row ''2024-01-01'' 1 90 ''B'',
      mk_row ''2024-01-01'' 2 80 ''C'',
      mk_row ''2024-01-02'' 0 95 ''B'', mk_row ''2024-01-02'' 1 85 ''A'',
      mk_row ''2024-01-02'' 2 70 ''C'']"

text \<open>
  Six days: \<open>C\<close> plays twice with the highest scores, \<open>B\<close> five times (mean 4),
  \<open>A\<close> six times (mean 2.5).
\<close>

definition consistency_rows :: "score_row list" where
  "consistency_rows =
     [mk_row ''2024-03-01'' 0 100 ''C'', mk_row ''2024-03-01'' 1 4 ''B'',
      mk_row ''2024-03-01'' 2 1 ''A'',
      mk_row ''2024-03-02'' 0 100 ''C'', mk_row ''2024-03-02'' 1 4 ''B'',
      mk_row ''2024-03-02'' 2 2 ''A'',
      mk_row ''2024-03-03'' 0 4 ''B'', mk_row ''2024-03-03'' 1 3 ''A'',
      mk_row ''2024-03-04'' 0 4 ''A'', mk_row ''2024-03-04'' 1 4 ''B'',
      mk_row ''2024-03-05'' 0 5 ''A'', mk_row ''2024-03-05'' 1 4 ''B'',
      mk_row ''2024-03-06'' 0 0 ''A'']"

text \<open>
  Three days, two players with three rows each: \<open>X\<close> is seen first and scores 4, 4
  and 5 (mean 13/3), \<open>Y\<close> scores 4, 5 and 5 (mean 14/3); both means truncate to 4.
\<close>

definition tie_rows :: "score_row list" where
  "tie_rows =
     [mk_row ''2024-01-01'' 0 4 ''X'', mk_row ''2024-01-01'' 1 4 ''Y'',
      mk_row ''2024-01-02'' 0 5 ''Y'', mk_row ''2024-01-02'' 1 4 ''X'',
      mk_row ''2024-01-03'' 0 5 ''X'', mk_row ''2024-01-03'' 1 5 ''Y'']"

text \<open>One player with five rows on two dates.\<close>

definition repeat_rows :: "score_row list" where
  "repeat_rows =
     [mk_row ''2024-01-01'' 0 10 ''D'', mk_row ''2024-01-01'' 1 9 ''D'',
      mk_row ''2024-01-01'' 2 8 ''D'',
      mk_row ''2024-01-02'' 0 10 ''D'', mk_row ''2024-01-02'' 1 8 ''D'']"

subsection \<open>The reports in closed form\<close>

text \<open>
  The report of each function written with the notions above; the monthly one is given
  the average of daily participants and the score statistics.
\<close>

definition monthly_report_of ::
  "('f::linorder) float_ops \<Rightarrow> score_row list \<Rightarrow> (string \<times> string) list \<Rightarrow> int \<Rightarrow> string \<Rightarrow> string
     \<Rightarrow> 'f \<Rightarrow> score_statistics option \<Rightarrow> 'f monthly_report" where
  "monthly_report_of F rows player_rows total_days start_date end_date avg st =
     \<lparr>month_period = (start_date, end_date),
      monthly_champion =
        (case py_sorted_reverse snd (tally first_place rows) of
           [] \<Rightarrow> None
         | first # _ \<Rightarrow>
             Some (champion_entry F (build_player_names player_rows) total_days first)),
      top_champions =
        map (champion_entry F (build_player_names player_rows) total_days)
          (take 10 (py_sorted_reverse snd (tally first_place rows))),
      top_podium_finishes =
        map (podium_entry F (build_player_names player_rows) total_days)
          (take 10 (py_sorted_reverse snd (tally on_podium rows))),
      top_10_finishes =
        map (top_10_of (build_player_names player_rows))
          (take 20 (py_sorted_reverse snd (tally in_top_10 rows))),
      most_consistent =
        take 15 (py_sorted_reverse mc_consistency_rating
          (map (consistent_entry F (build_player_names player_rows) rows)
             (filter (\<lambda>pid. 5 \<le> days_played rows pid) (players rows)))),
      participation =
        \<lparr>total_unique_players = int (length (players rows)),
         total_days_tracked = total_days,
         avg_daily_participants = avg\<rparr>,
      score_stats = st\<rparr>"

definition weekly_report_of ::
  "'f float_ops \<Rightarrow> score_row list \<Rightarrow> (string \<times> string) list \<Rightarrow> string \<Rightarrow> string
     \<Rightarrow> weekly_report" where
  "weekly_report_of F rows player_rows start_date end_date =
     \<lparr>week_period = (start_date, end_date),
      daily_winners = w_daily_winners (weekly_loop weekly_init rows),
      weekly_champion =
        (case py_sorted_reverse snd (tally first_place rows) of
           [] \<Rightarrow> None
         | first # _ \<Rightarrow>
             Some \<lparr>wc_playfab_id = fst first,
                   wc_display_name =
                     dict_get (build_player_names player_rows) (fst first) ''Unknown'',
                   wc_first_place_count = snd first\<rparr>),
      top_first_places =
        map (count_entry_of (build_player_names player_rows))
          (take 10 (py_sorted_reverse snd (tally first_place rows))),
      wr_top_podium_finishes =
        map (count_entry_of (build_player_names player_rows))
          (take 10 (py_sorted_reverse snd (tally on_podium rows))),
      wr_most_consistent =
        take 10 (py_sorted_reverse (\<lambda>x. (wk_days_played x, wk_average_score x))
          (map (weekly_consistent_entry F (build_player_names player_rows) rows)
             (filter (\<lambda>pid. 3 \<le> days_played rows pid) (players rows)))),
      wr_total_unique_players = int (length (players rows))\<rparr>"

text \<open>The mean score of a player as the report fields hold it.\<close>

definition truncated_average :: "'f float_ops \<Rightarrow> score_row list \<Rightarrow> string \<Rightarrow> int" where
  "truncated_average F rows pid = trunc F (float_mean F (scores_of rows pid))"

definition rounded_average :: "'f float_ops \<Rightarrow> score_row list \<Rightarrow> string \<Rightarrow> 'f" where
  "rounded_average F rows pid = round2 F (float_mean F (scores_of rows pid))"

subsection \<open>Exported rows\<close>

text \<open>
  The CSV row of a record under a header: one cell per column, holding the record's
  value for it, or the writer's filler when the record has no such key.
\<close>

definition row_of :: "string list \<Rightarrow> (string, 'v) pydict \<Rightarrow> 'v cell list" where
  "row_of fieldnames r =
     map (\<lambda>k. case map_of r k of None \<Rightarrow> Restval | Some v \<Rightarrow> Value v) fieldnames"

definition empty_world :: "'v world" where
  "empty_world = \<lparr>files = Map.empty, stdout = []\<rparr>"

subsection \<open>ISO-8601 weeks\<close>

text \<open>
  Week 1 of an ISO-8601 year is the week, starting on a Monday, that contains 4 January;
  \<open>iso_week_monday\<close> is the ordinal of the Monday of a week of the year and
  \<open>iso_week_range\<close> the window from that Monday to the Sunday after it.
\<close>

definition iso_week_monday :: "int \<Rightarrow> int \<Rightarrow> int" where
  "iso_week_monday y week =
     (let jan4 = ymd2ord y 1 4 in jan4 - (jan4 + 6) mod 7 + 7 * (week - 1))"

definition iso_week_range :: "int \<Rightarrow> int \<Rightarrow> py_error + (string \<times> string)" where
  "iso_week_range y week =
     (case fromordinal (iso_week_monday y week) of
        Inl e \<Rightarrow> Inl e
      | Inr monday \<Rightarrow>
          (case add_days monday 6 of
             Inl e \<Rightarrow> Inl e
           | Inr sunday \<Rightarrow> Inr (strftime_Ymd monday, strftime_Ymd sunday)))"

text \<open>A store that answers every scores query with the two-day scenario.\<close>

definition scenario_store :: store where
  "scenario_store =
     \<lparr>scores_between = (\<lambda>start_date end_date. scenario_rows),
      players_table = [(''A'', ''Alice''), (''B'', ''Bob''), (''C'', ''Carol'')],
      day_count = (\<lambda>start_date end_date. 2)\<rparr>"










section \<open>The month window\<close>

lemma month_cases:
  assumes "1 \<le> m" "m \<le> 12"
  shows "m = 1 \<or> m = 2 \<or> m = 3 \<or> m = 4 \<or> m = 5 \<or> m = 6 \<or> m = 7 \<or> m = 8 \<or> m = 9
           \<or> m = 10 \<or> m = 11 \<or> m = (12::int)"
  using assms by arith

lemma isleap_gregorian: "isleap y = gregorian_leap_year y"
  by (simp add: isleap_def gregorian_leap_year_def dvd_eq_mod_eq_0)

lemma mdays_nth:
  "mdays ! Suc 0 = 31" "mdays ! 2 = 28" "mdays ! 3 = 31" "mdays ! 4 = 30"
  "mdays ! 5 = 31" "mdays ! 6 = 30" "mdays ! 7 = 31" "mdays ! 8 = 31"
  "mdays ! 9 = 30" "mdays ! 10 = 31" "mdays ! 11 = 30" "mdays ! 12 = 31"
  by (simp_all add: mdays_def)

lemma dbm_nth:
  "DAYS_BEFORE_MONTH ! Suc 0 = 0" "DAYS_BEFORE_MONTH ! 2 = 31"
  "DAYS_BEFORE_MONTH ! 3 = 59" "DAYS_BEFORE_MONTH ! 4 = 90"
  "DAYS_BEFORE_MONTH ! 5 = 120" "DAYS_BEFORE_MONTH ! 6 = 151"
  "DAYS_BEFORE_MONTH ! 7 = 181" "DAYS_BEFORE_MONTH ! 8 = 212"
  "DAYS_BEFORE_MONTH ! 9 = 243" "DAYS_BEFORE_MONTH ! 10 = 273"
  "DAYS_BEFORE_MONTH ! 11 = 304" "DAYS_BEFORE_MONTH ! 12 = 334"
  by (simp_all add: DAYS_BEFORE_MONTH_def)

lemma mdays_positive:
  assumes "1 \<le> m" "m \<le> 12"
  shows "1 \<le> mdays ! nat m"
  using month_cases [OF assms] by (elim disjE; simp add: mdays_nth)

lemma calendar_weekday_first:
  assumes "1 \<le> m" "m \<le> 12"
  shows "\<exists>d1. calendar_weekday y m 1 = Inr d1"
proof -
  have "1 \<le> days_in_month y' m" for y'
    using mdays_positive [OF assms] by (simp add: days_in_month_def)
  moreover have "MINYEAR \<le> 2000 + y mod 400 \<and> 2000 + y mod 400 \<le> MAXYEAR"
    using pos_mod_bound [of 400 y] pos_mod_sign [of 400 y] by (simp add: MINYEAR_def MAXYEAR_def)
  ultimately show ?thesis
    using assms by (simp add: calendar_weekday_def date_new_def Let_def)
qed

lemma month_length:
  assumes "1 \<le> m" "m \<le> 12"
  shows "mdays ! nat m + (if m = 2 \<and> isleap y then 1 else 0) = last_day_of_month y m"
  using month_cases [OF assms]
  by (elim disjE; simp add: mdays_nth last_day_of_month_def isleap_gregorian)

lemma monthrange_days:
  assumes "1 \<le> m" "m \<le> 12"
  shows "\<exists>d1. monthrange y m = Inr (d1, last_day_of_month y m)"
proof -
  obtain d1 where "calendar_weekday y m 1 = Inr d1"
    using calendar_weekday_first [OF assms] by blast
  then show ?thesis
    using assms month_length [OF assms, of y] by (simp add: monthrange_def)
qed

lemma div_succ:
  fixes z k :: int
  assumes "0 < k"
  shows "(z + 1) div k = z div k + (if (z + 1) mod k = 0 then 1 else 0)"
proof -
  have e: "k * (z div k) + z mod k = z" by simp
  have b: "0 \<le> z mod k" "z mod k < k"
    using assms by simp_all
  show ?thesis
  proof (cases "z mod k + 1 = k")
    case True
    have "k * (z div k + 1) = k * (z div k) + k" by (simp add: distrib_left)
    with e True have "z + 1 = k * (z div k + 1) + 0" by linarith
    then have "(z + 1) div k = z div k + 1" "(z + 1) mod k = 0"
      using assms int_div_pos_eq [of "z + 1" k "z div k + 1" 0]
        int_mod_pos_eq [of "z + 1" k "z div k + 1" 0] by simp_all
    then show ?thesis by simp
  next
    case False
    with b have r: "0 \<le> z mod k + 1" "z mod k + 1 < k" by linarith+
    from e have "z + 1 = k * (z div k) + (z mod k + 1)" by linarith
    then have "(z + 1) div k = z div k" "(z + 1) mod k = z mod k + 1"
      using r int_div_pos_eq [of "z + 1" k "z div k" "z mod k + 1"]
        int_mod_pos_eq [of "z + 1" k "z div k" "z mod k + 1"] by simp_all
    moreover have "z mod k + 1 \<noteq> 0" using b by linarith
    ultimately show ?thesis by simp
  qed
qed


lemma days_before_year_Suc:
  "days_before_year (y + 1) = days_before_year y + (if isleap y then 366 else 365)"
proof -
  define q4 where "q4 = (y - 1) div 4"
  define q100 where "q100 = (y - 1) div 100"
  define q400 where "q400 = (y - 1) div 400"
  have l: "days_before_year y = (y - 1) * 365 + q4 - q100 + q400"
    unfolding days_before_year_def Let_def q4_def q100_def q400_def ..
  have a: "y div 4 = q4 + (if y mod 4 = 0 then 1 else 0)"
    using div_succ [of 4 "y - 1"] q4_def by simp
  have b: "y div 100 = q100 + (if y mod 100 = 0 then 1 else 0)"
    using div_succ [of 100 "y - 1"] q100_def by simp
  have c: "y div 400 = q400 + (if y mod 400 = 0 then 1 else 0)"
    using div_succ [of 400 "y - 1"] q400_def by simp
  have "(100::int) dvd 400" "(4::int) dvd 100" by simp_all
  then have d: "y mod 400 = 0 \<Longrightarrow> y mod 100 = 0" "y mod 100 = 0 \<Longrightarrow> y mod 4 = 0"
    using dvd_trans [of 100 400 y] dvd_trans [of 4 100 y]
    by (simp_all add: dvd_eq_mod_eq_0 [symmetric])
  have "days_before_year (y + 1) = y * 365 + y div 4 - y div 100 + y div 400"
    unfolding days_before_year_def Let_def by (simp only: add_diff_cancel_right')
  also have "\<dots> = days_before_year y + (if isleap y then 366 else 365)"
    unfolding l a b c isleap_def
    using d by (cases "y mod 4 = 0"; cases "y mod 100 = 0"; cases "y mod 400 = 0";
        simp add: algebra_simps)
  finally show ?thesis .
qed

lemma next_day_is_first:
  assumes "1 \<le> m" "m \<le> 12"
  shows "ymd2ord y m (last_day_of_month y m) + 1
           = ymd2ord (fst (first_of_next_month y m)) (snd (first_of_next_month y m)) 1"
  using month_cases [OF assms]
  by (elim disjE; simp add: ymd2ord_def days_before_month_def dbm_nth last_day_of_month_def
      first_of_next_month_def days_before_year_Suc isleap_gregorian)

lemma fmt_02d_1: "fmt_02d 1 = ''01''"
  by (simp add: fmt_02d_def digits.simps digit_char_def)

text \<open>
  Claim C9. For every year and every month from 1 to 12, \<open>get_month_date_range\<close>
  returns the first day of the month and the last day the Gregorian calendar gives that
  month (29 February in leap years); the day after the end date is the first day of the
  following month.
\<close>

theorem month_range:
  assumes "1 \<le> m" and "m \<le> 12"
  shows "get_month_date_range y m
           = Inr (strftime_Ymd \<lparr>year = y, month = m, day = 1\<rparr>,
                  strftime_Ymd \<lparr>year = y, month = m, day = last_day_of_month y m\<rparr>)
         \<and> ymd2ord y m (last_day_of_month y m) + 1
           = ymd2ord (fst (first_of_next_month y m)) (snd (first_of_next_month y m)) 1"
proof -
  obtain d1 where "monthrange y m = Inr (d1, last_day_of_month y m)"
    using monthrange_days [OF assms] by blast
  then have "get_month_date_range y m
           = Inr (strftime_Ymd \<lparr>year = y, month = m, day = 1\<rparr>,
                  strftime_Ymd \<lparr>year = y, month = m, day = last_day_of_month y m\<rparr>)"
    by (simp add: get_month_date_range_def strftime_Ymd_def fmt_02d_1)
  then show ?thesis
    using next_day_is_first [OF assms] by simp
qed

theorem month_range_witness:
  "get_month_date_range 2024 2 = Inr (''2024-02-01'', ''2024-02-29'')
   \<and> get_month_date_range 2023 2 = Inr (''2023-02-01'', ''2023-02-28'')
   \<and> ymd2ord 2024 2 29 + 1 = ymd2ord 2024 3 1"
proof -
  have s: "strftime_Ymd \<lparr>year = 2024, month = 2, day = 1\<rparr> = ''2024-02-01''"
      "strftime_Ymd \<lparr>year = 2024, month = 2, day = 29\<rparr> = ''2024-02-29''"
      "strftime_Ymd \<lparr>year = 2023, month = 2, day = 1\<rparr> = ''2023-02-01''"
      "strftime_Ymd \<lparr>year = 2023, month = 2, day = 28\<rparr> = ''2023-02-28''"
    by (simp_all add: strftime_Ymd_def str_int_def fmt_02d_def digits.simps digit_char_def)
  have l: "last_day_of_month 2024 2 = 29" "last_day_of_month 2023 2 = 28"
      "first_of_next_month 2024 2 = (2024, 3)"
    by (simp_all add: last_day_of_month_def gregorian_leap_year_def first_of_next_month_def)
  show ?thesis
    using month_range [of 2 2024] month_range [of 2 2023] by (simp add: s l)
qed

section \<open>Dictionaries filled by a loop\<close>

lemma accumulate_Nil [simp]: "accumulate P key z g d [] = d"
  by (simp add: accumulate_def)

lemma accumulate_Cons [simp]:
  "accumulate P key z g d (r # rows) =
     accumulate P key z g
       (if P r then dict_setitem d (key r) (g (dict_get d (key r) z) r) else d) rows"
  by (simp add: accumulate_def)

lemma set_first_seen [simp]: "set (first_seen xs) = set xs"
  by (induction xs) auto

lemma distinct_first_seen [simp]: "distinct (first_seen xs)"
  by (induction xs) auto

lemma keys_setitem:
  "map fst (dict_setitem d k v) = (if k \<in> set (map fst d) then map fst d else map fst d @ [k])"
  unfolding dict_setitem_def by (rule AList.update_keys)

lemma map_of_setitem: "map_of (dict_setitem d k v) = (map_of d)(k \<mapsto> v)"
  unfolding dict_setitem_def by (rule AList.update_conv')

lemma distinct_setitem: "distinct (map fst d) \<Longrightarrow> distinct (map fst (dict_setitem d k v))"
  unfolding dict_setitem_def by (rule AList.distinct_update)

lemma dict_get_setitem:
  "dict_get (dict_setitem d k v) k' z = (if k' = k then v else dict_get d k' z)"
  by (simp add: dict_get_def map_of_setitem)

lemma accumulate_keys:
  "map fst (accumulate P key z g d rows) =
     map fst d @ filter (\<lambda>k. k \<notin> set (map fst d)) (first_seen (map key (filter P rows)))"
proof (induction rows arbitrary: d)
  case Nil
  then show ?case by simp
next
  case (Cons r rows)
  show ?case
  proof (cases "P r")
    case False
    then show ?thesis using Cons.IH [of d] by simp
  next
    case True
    let ?d' = "dict_setitem d (key r) (g (dict_get d (key r) z) r)"
    let ?fs = "first_seen (map key (filter P rows))"
    have ih: "map fst (accumulate P key z g ?d' rows) =
        map fst ?d' @ filter (\<lambda>k. k \<notin> set (map fst ?d')) ?fs"
      by (rule Cons.IH)
    show ?thesis
    proof (cases "key r \<in> set (map fst d)")
      case in_d: True
      have "filter (\<lambda>k. k \<notin> set (map fst d)) (filter (\<lambda>y. y \<noteq> key r) ?fs)
              = filter (\<lambda>k. k \<notin> set (map fst d)) ?fs"
        using in_d by (auto intro: filter_cong)
      then show ?thesis using True in_d ih by (simp add: keys_setitem)
    next
      case out: False
      have "filter (\<lambda>k. k \<notin> set (map fst d)) (filter (\<lambda>y. y \<noteq> key r) ?fs)
              = filter (\<lambda>k. k \<notin> set (map fst d @ [key r])) ?fs"
        by (auto intro: filter_cong)
      then show ?thesis using True out ih by (simp add: keys_setitem)
    qed
  qed
qed

lemma accumulate_map_of:
  "map_of (accumulate P key z g d rows) k =
     (if filter (\<lambda>r. P r \<and> key r = k) rows = [] then map_of d k
      else Some (foldl g (dict_get d k z) (filter (\<lambda>r. P r \<and> key r = k) rows)))"
proof (induction rows arbitrary: d)
  case Nil
  then show ?case by simp
next
  case (Cons r rows)
  show ?case
  proof (cases "P r")
    case False
    then show ?thesis using Cons.IH [of d] by simp
  next
    case True
    let ?d' = "dict_setitem d (key r) (g (dict_get d (key r) z) r)"
    note ih = Cons.IH [of ?d']
    show ?thesis
    proof (cases "key r = k")
      case same: True
      have "map_of ?d' k = Some (g (dict_get d k z) r)" "dict_get ?d' k z = g (dict_get d k z) r"
        using same by (simp_all add: map_of_setitem dict_get_setitem)
      with ih True same show ?thesis by simp
    next
      case other: False
      have "map_of ?d' k = map_of d k" "dict_get ?d' k z = dict_get d k z"
        using other by (auto simp: map_of_setitem dict_get_setitem)
      with ih True other show ?thesis by simp
    qed
  qed
qed

lemma accumulate_distinct:
  "distinct (map fst d) \<Longrightarrow> distinct (map fst (accumulate P key z g d rows))"
  by (induction rows arbitrary: d) (simp_all add: distinct_setitem)

lemma alist_by_keys:
  "distinct (map fst d) \<Longrightarrow> d = map (\<lambda>k. (k, the (map_of d k))) (map fst d)"
proof (induction d)
  case Nil
  then show ?case by simp
next
  case (Cons p d)
  then have "map (\<lambda>k. (k, the (map_of (p # d) k))) (map fst d)
               = map (\<lambda>k. (k, the (map_of d k))) (map fst d)"
    by (intro map_cong) (auto simp: rev_image_eqI)
  with Cons show ?case by (cases p) simp
qed

lemma accumulate_from_empty:
  "accumulate P key z g [] rows =
     map (\<lambda>k. (k, foldl g z (filter (\<lambda>r. P r \<and> key r = k) rows)))
       (first_seen (map key (filter P rows)))"
proof -
  let ?a = "accumulate P key z g [] rows"
  have keys: "map fst ?a = first_seen (map key (filter P rows))"
    by (simp add: accumulate_keys)
  have "distinct (map fst ?a)" by (simp add: accumulate_distinct)
  then have "?a = map (\<lambda>k. (k, the (map_of ?a k))) (map fst ?a)" by (rule alist_by_keys)
  also have "\<dots> = map (\<lambda>k. (k, the (map_of ?a k))) (first_seen (map key (filter P rows)))"
    by (simp only: keys)
  also have "\<dots> = map (\<lambda>k. (k, foldl g z (filter (\<lambda>r. P r \<and> key r = k) rows)))
       (first_seen (map key (filter P rows)))"
  proof (intro map_cong refl)
    fix k assume "k \<in> set (first_seen (map key (filter P rows)))"
    then obtain r where "r \<in> set rows" "P r" "key r = k" by auto
    then have "filter (\<lambda>r. P r \<and> key r = k) rows \<noteq> []"
      by (auto simp: filter_empty_conv)
    then show "(k, the (map_of ?a k)) = (k, foldl g z (filter (\<lambda>r. P r \<and> key r = k) rows))"
      by (simp add: accumulate_map_of dict_get_def)
  qed
  finally show ?thesis .
qed

lemma foldl_count: "foldl (\<lambda>c r. c + 1) c rs = c + int (length rs)"
  by (induction rs arbitrary: c) simp_all

lemma foldl_append_scores: "foldl (\<lambda>l r. l @ [f r]) l rs = l @ map f rs"
  by (induction rs arbitrary: l) simp_all

lemma count_into_tally:
  "accumulate P playfab_id 0 (\<lambda>c r. c + 1) [] rows = tally P rows"
  by (simp add: accumulate_from_empty tally_def count_rows_def foldl_count)

section \<open>What the two loops accumulate\<close>

lemma monthly_step_fields:
  "first_place_counts (monthly_step acc r) =
     (if position r = 0 then defaultdict_incr (first_place_counts acc) (playfab_id r)
      else first_place_counts acc)"
  "podium_counts (monthly_step acc r) =
     (if position r \<le> 2 then defaultdict_incr (podium_counts acc) (playfab_id r)
      else podium_counts acc)"
  "top_10_counts (monthly_step acc r) =
     (if position r \<le> 9 then defaultdict_incr (top_10_counts acc) (playfab_id r)
      else top_10_counts acc)"
  "participation_counts (monthly_step acc r) =
     defaultdict_incr (participation_counts acc) (playfab_id r)"
  "total_scores (monthly_step acc r) =
     defaultdict_append (total_scores acc) (playfab_id r) (score r)"
  "daily_participants (monthly_step acc r) =
     defaultdict_add (daily_participants acc) (stat_date r) (playfab_id r)"
  by (simp_all add: monthly_step_def Let_def)

lemma monthly_loop_first_place:
  "first_place_counts (monthly_loop acc rows) =
     accumulate (\<lambda>r. position r = 0) playfab_id 0 (\<lambda>c r. c + 1) (first_place_counts acc) rows"
  by (induction rows arbitrary: acc) (simp_all add: monthly_step_fields defaultdict_incr_def)

lemma monthly_loop_podium:
  "podium_counts (monthly_loop acc rows) =
     accumulate (\<lambda>r. position r \<le> 2) playfab_id 0 (\<lambda>c r. c + 1) (podium_counts acc) rows"
  by (induction rows arbitrary: acc) (simp_all add: monthly_step_fields defaultdict_incr_def)

lemma monthly_loop_top_10:
  "top_10_counts (monthly_loop acc rows) =
     accumulate (\<lambda>r. position r \<le> 9) playfab_id 0 (\<lambda>c r. c + 1) (top_10_counts acc) rows"
  by (induction rows arbitrary: acc) (simp_all add: monthly_step_fields defaultdict_incr_def)

lemma monthly_loop_participation:
  "participation_counts (monthly_loop acc rows) =
     accumulate (\<lambda>r. True) playfab_id 0 (\<lambda>c r. c + 1) (participation_counts acc) rows"
  by (induction rows arbitrary: acc) (simp_all add: monthly_step_fields defaultdict_incr_def)

lemma monthly_loop_total_scores:
  "total_scores (monthly_loop acc rows) =
     accumulate (\<lambda>r. True) playfab_id [] (\<lambda>l r. l @ [score r]) (total_scores acc) rows"
  by (induction rows arbitrary: acc) (simp_all add: monthly_step_fields defaultdict_append_def)

lemma monthly_loop_daily_participants:
  "daily_participants (monthly_loop acc rows) =
     accumulate (\<lambda>r. True) stat_date {} (\<lambda>s r. insert (playfab_id r) s)
       (daily_participants acc) rows"
  by (induction rows arbitrary: acc) (simp_all add: monthly_step_fields defaultdict_add_def)

lemma scores_into_dict:
  "accumulate (\<lambda>r. True) playfab_id [] (\<lambda>l r. l @ [score r]) [] rows =
     map (\<lambda>pid. (pid, scores_of rows pid)) (first_seen (map playfab_id rows))"
  by (simp add: accumulate_from_empty scores_of_def foldl_append_scores)

lemma monthly_counts:
  "first_place_counts (monthly_loop monthly_init rows) = tally (\<lambda>r. position r = 0) rows"
  "podium_counts (monthly_loop monthly_init rows) = tally (\<lambda>r. position r \<le> 2) rows"
  "top_10_counts (monthly_loop monthly_init rows) = tally (\<lambda>r. position r \<le> 9) rows"
  "participation_counts (monthly_loop monthly_init rows) = tally (\<lambda>r. True) rows"
  "total_scores (monthly_loop monthly_init rows) =
     map (\<lambda>pid. (pid, scores_of rows pid)) (first_seen (map playfab_id rows))"
  by (simp_all add: monthly_loop_first_place monthly_loop_podium monthly_loop_top_10
      monthly_loop_participation monthly_loop_total_scores monthly_init_def
      count_into_tally scores_into_dict)

lemma weekly_step_fields:
  "w_first_place_counts (weekly_step acc r) =
     (if position r = 0 then defaultdict_incr (w_first_place_counts acc) (playfab_id r)
      else w_first_place_counts acc)"
  "w_podium_counts (weekly_step acc r) =
     (if position r \<le> 2 then defaultdict_incr (w_podium_counts acc) (playfab_id r)
      else w_podium_counts acc)"
  "w_participation_counts (weekly_step acc r) =
     defaultdict_incr (w_participation_counts acc) (playfab_id r)"
  by (simp_all add: weekly_step_def Let_def defaultdict_incr_def)

lemma append_after_default:
  "defaultdict_append (if \<not> dict_contains d k then dict_setitem d k [] else d) k x
     = defaultdict_append d k x"
  by (simp add: defaultdict_append_def dict_contains_def dict_setitem_def dict_get_def
      AList.update_conv')

lemma weekly_step_total_scores:
  "w_total_scores (weekly_step acc r) =
     defaultdict_append (w_total_scores acc) (playfab_id r) (score r)"
proof -
  have "w_total_scores (weekly_step acc r) =
      defaultdict_append
        (if \<not> dict_contains (w_total_scores acc) (playfab_id r)
         then dict_setitem (w_total_scores acc) (playfab_id r) [] else w_total_scores acc)
        (playfab_id r) (score r)"
    by (simp add: weekly_step_def Let_def)
  then show ?thesis by (simp only: append_after_default)
qed

lemma weekly_loop_first_place:
  "w_first_place_counts (weekly_loop acc rows) =
     accumulate (\<lambda>r. position r = 0) playfab_id 0 (\<lambda>c r. c + 1) (w_first_place_counts acc) rows"
  by (induction rows arbitrary: acc) (simp_all add: weekly_step_fields defaultdict_incr_def)

lemma weekly_loop_podium:
  "w_podium_counts (weekly_loop acc rows) =
     accumulate (\<lambda>r. position r \<le> 2) playfab_id 0 (\<lambda>c r. c + 1) (w_podium_counts acc) rows"
  by (induction rows arbitrary: acc) (simp_all add: weekly_step_fields defaultdict_incr_def)

lemma weekly_loop_participation:
  "w_participation_counts (weekly_loop acc rows) =
     accumulate (\<lambda>r. True) playfab_id 0 (\<lambda>c r. c + 1) (w_participation_counts acc) rows"
  by (induction rows arbitrary: acc) (simp_all add: weekly_step_fields defaultdict_incr_def)

lemma weekly_loop_total_scores:
  "w_total_scores (weekly_loop acc rows) =
     accumulate (\<lambda>r. True) playfab_id [] (\<lambda>l r. l @ [score r]) (w_total_scores acc) rows"
  by (induction rows arbitrary: acc) (simp_all add: weekly_step_total_scores defaultdict_append_def)

lemma weekly_counts:
  "w_first_place_counts (weekly_loop weekly_init rows) = tally (\<lambda>r. position r = 0) rows"
  "w_podium_counts (weekly_loop weekly_init rows) = tally (\<lambda>r. position r \<le> 2) rows"
  "w_participation_counts (weekly_loop weekly_init rows) = tally (\<lambda>r. True) rows"
  "w_total_scores (weekly_loop weekly_init rows) =
     map (\<lambda>pid. (pid, scores_of rows pid)) (first_seen (map playfab_id rows))"
  by (simp_all add: weekly_loop_first_place weekly_loop_podium weekly_loop_participation
      weekly_loop_total_scores weekly_init_def count_into_tally scores_into_dict)

lemma map_of_tally:
  "map_of (tally P rows) pid =
     (if count_rows P rows pid = 0 then None else Some (count_rows P rows pid))"
  unfolding count_into_tally [symmetric]
  by (simp add: accumulate_map_of count_rows_def foldl_count dict_get_def)

lemma dict_get_tally: "dict_get (tally P rows) pid 0 = count_rows P rows pid"
  by (simp add: dict_get_def map_of_tally)

lemma count_rows_mono:
  assumes "\<And>r. P r \<Longrightarrow> Q r"
  shows "count_rows P rows pid \<le> count_rows Q rows pid"
  unfolding count_rows_def using assms by (induction rows) auto

section \<open>The counters of a player\<close>

text \<open>
  Claim C10. After the loop of either report, the counters of any player (read with the
  default 0 of the dictionaries) are ordered: first places, podiums, top-10 finishes and
  days played in the monthly loop; first places, podiums and days played in the weekly
  one.
\<close>

theorem counters_ordered:
  "dict_get (first_place_counts (monthly_loop monthly_init scores)) pid 0
     \<le> dict_get (podium_counts (monthly_loop monthly_init scores)) pid 0
   \<and> dict_get (podium_counts (monthly_loop monthly_init scores)) pid 0
     \<le> dict_get (top_10_counts (monthly_loop monthly_init scores)) pid 0
   \<and> dict_get (top_10_counts (monthly_loop monthly_init scores)) pid 0
     \<le> dict_get (participation_counts (monthly_loop monthly_init scores)) pid 0
   \<and> dict_get (w_first_place_counts (weekly_loop weekly_init scores)) pid 0
     \<le> dict_get (w_podium_counts (weekly_loop weekly_init scores)) pid 0
   \<and> dict_get (w_podium_counts (weekly_loop weekly_init scores)) pid 0
     \<le> dict_get (w_participation_counts (weekly_loop weekly_init scores)) pid 0"
proof -
  have a: "count_rows (\<lambda>r. position r = 0) scores pid \<le> count_rows (\<lambda>r. position r \<le> 2) scores pid"
    by (rule count_rows_mono) simp
  have b: "count_rows (\<lambda>r. position r \<le> 2) scores pid \<le> count_rows (\<lambda>r. position r \<le> 9) scores pid"
    by (rule count_rows_mono) simp
  have c: "count_rows (\<lambda>r. position r \<le> 9) scores pid \<le> count_rows (\<lambda>r. True) scores pid"
    by (rule count_rows_mono) simp
  have d: "count_rows (\<lambda>r. position r \<le> 2) scores pid \<le> count_rows (\<lambda>r. True) scores pid"
    by (rule count_rows_mono) simp
  show ?thesis
    using a b c d by (simp add: monthly_counts weekly_counts dict_get_tally)
qed

section \<open>An empty window\<close>

text \<open>
  Claim C3. On an empty sequence of score rows both statistics functions return a report
  and raise nothing: the champion is absent, every ranking list is empty, the number of
  unique players is 0, and in the monthly report the average of daily participants is
  the float zero, the quotient of 0 by \<open>max(0, 1) = 1\<close>. The weekly report has no such
  average.
\<close>

theorem empty_window_report:
  "calculate_monthly_stats F [] player_rows total_days start_date end_date =
     Inr \<lparr>month_period = (start_date, end_date),
          monthly_champion = None,
          top_champions = [],
          top_podium_finishes = [],
          top_10_finishes = [],
          most_consistent = [],
          participation =
            \<lparr>total_unique_players = 0,
             total_days_tracked = total_days,
             avg_daily_participants = float_of_int F 0\<rparr>,
          score_stats = None\<rparr>
   \<and> calculate_weekly_stats F [] player_rows start_date end_date =
     Inr \<lparr>week_period = (start_date, end_date),
          daily_winners = [],
          weekly_champion = None,
          top_first_places = [],
          wr_top_podium_finishes = [],
          wr_most_consistent = [],
          wr_total_unique_players = 0\<rparr>"
  by (simp add: calculate_monthly_stats_def calculate_weekly_stats_def monthly_init_def
      weekly_init_def py_truediv_def monthly_champions_def monthly_podium_def
      monthly_top_10_def monthly_consistent_def monthly_score_statistics_def
      weekly_champions_def weekly_podium_def weekly_consistent_def)

section \<open>Sorting with \<open>reverse=True\<close>\<close>

lemma py_sorted_reverse_Nil [simp]: "py_sorted_reverse key [] = []"
  by (simp add: py_sorted_reverse_def)

lemma length_py_sorted_reverse [simp]: "length (py_sorted_reverse key xs) = length xs"
  by (simp add: py_sorted_reverse_def)

lemma set_py_sorted_reverse [simp]: "set (py_sorted_reverse key xs) = set xs"
  by (simp add: py_sorted_reverse_def)

lemma py_sorted_reverse_descending:
  "sorted_wrt (\<lambda>a b. key b \<le> key a) (py_sorted_reverse key xs)"
proof -
  have "sorted (map key (sort_key key (rev xs)))" by (rule sorted_sort_key)
  then have "sorted_wrt (\<lambda>a b. key a \<le> key b) (sort_key key (rev xs))"
    by (simp add: sorted_map)
  then show ?thesis
    by (simp add: py_sorted_reverse_def sorted_wrt_rev)
qed

lemma py_sorted_reverse_stable:
  "filter (\<lambda>x. key x = k) (py_sorted_reverse key xs) = filter (\<lambda>x. key x = k) xs"
proof -
  have "filter (\<lambda>x. key x = k) (py_sorted_reverse key xs)
          = rev (filter (\<lambda>x. key x = k) (sort_key key (rev xs)))"
    by (simp add: py_sorted_reverse_def rev_filter)
  also have "\<dots> = rev (filter (\<lambda>x. key x = k) (rev xs))"
    by (simp only: sort_key_stable)
  also have "\<dots> = filter (\<lambda>x. key x = k) xs"
    by (simp add: rev_filter)
  finally show ?thesis .
qed

lemma py_sorted_reverse_is_stable_desc:
  "stable_desc_sorted_by key xs (py_sorted_reverse key xs)"
  by (simp add: stable_desc_sorted_by_def py_sorted_reverse_descending py_sorted_reverse_stable)

lemma map_insort_key:
  "map f (insort_key (\<lambda>x. k (f x)) x xs) = insort_key k (f x) (map f xs)"
  by (induction xs) simp_all

lemma map_sort_key:
  "map f (sort_key (\<lambda>x. k (f x)) xs) = sort_key k (map f xs)"
  by (induction xs) (simp_all add: map_insort_key)

lemma map_py_sorted_reverse:
  "map f (py_sorted_reverse (\<lambda>x. k (f x)) xs) = py_sorted_reverse k (map f xs)"
proof -
  have "map f (rev (sort_key (\<lambda>x. k (f x)) (rev xs)))
          = rev (map f (sort_key (\<lambda>x. k (f x)) (rev xs)))"
    by (rule rev_map [symmetric])
  also have "\<dots> = rev (sort_key k (map f (rev xs)))"
    by (simp only: map_sort_key)
  also have "\<dots> = rev (sort_key k (rev (map f xs)))"
    by (simp only: rev_map)
  finally show ?thesis by (simp only: py_sorted_reverse_def)
qed

section \<open>The functions raise nothing\<close>

lemma map_err_Inr:
  assumes "\<And>x. x \<in> set xs \<Longrightarrow> f x = Inr (g x)"
  shows "map_err f xs = Inr (map g xs)"
  using assms by (induction xs) simp_all

lemma py_truediv_positive: "0 < b \<Longrightarrow> py_truediv F a b = Inr (quotient F a b)"
  by (simp add: py_truediv_def quotient_def)

lemma percentage_value: "percentage F c t = Inr (percent_value F c t)"
  by (simp add: percentage_def percent_value_def py_truediv_positive)

lemma mean_value: "xs \<noteq> [] \<Longrightarrow> mean F xs = Inr (float_mean F xs)"
  by (simp add: mean_def float_mean_def py_truediv_positive)

lemma foldl_max: "foldl max (x::int) xs = Max (set (x # xs))"
proof -
  have "(\<lambda>a b. max b a) = (max :: int \<Rightarrow> int \<Rightarrow> int)"
    by (intro ext) (rule max.commute)
  then have "foldl max x xs = fold max xs x"
    by (simp add: foldl_conv_fold)
  also have "\<dots> = Max (set (x # xs))"
    by (rule Max.set_eq_fold [symmetric])
  finally show ?thesis .
qed

lemma foldl_min: "foldl min (x::int) xs = Min (set (x # xs))"
proof -
  have "(\<lambda>a b. min b a) = (min :: int \<Rightarrow> int \<Rightarrow> int)"
    by (intro ext) (rule min.commute)
  then have "foldl min x xs = fold min xs x"
    by (simp add: foldl_conv_fold)
  also have "\<dots> = Min (set (x # xs))"
    by (rule Min.set_eq_fold [symmetric])
  finally show ?thesis .
qed

lemma py_max_value: "xs \<noteq> [] \<Longrightarrow> py_max xs = Inr (Max (set xs))"
  by (cases xs) (simp_all add: py_max_def foldl_max del: set_simps)

lemma py_min_value: "xs \<noteq> [] \<Longrightarrow> py_min xs = Inr (Min (set xs))"
  by (cases xs) (simp_all add: py_min_def foldl_min del: set_simps)

lemma champion_of_value:
  "champion_of F names t item = Inr (champion_entry F names t item)"
  by (simp add: champion_of_def champion_entry_def percentage_value)

lemma podium_of_value:
  "podium_of F names t item = Inr (podium_entry F names t item)"
  by (simp add: podium_of_def podium_entry_def percentage_value)

lemma monthly_champions_value:
  "monthly_champions F names t fpc =
     Inr (case py_sorted_reverse snd fpc of
            [] \<Rightarrow> None
          | first # _ \<Rightarrow> Some (champion_entry F names t first),
          map (champion_entry F names t) (take 10 (py_sorted_reverse snd fpc)))"
proof (cases "fpc = []")
  case True
  then show ?thesis by (simp add: monthly_champions_def)
next
  case False
  then have "length (py_sorted_reverse snd fpc) \<noteq> 0" by simp
  then obtain first rest where top: "py_sorted_reverse snd fpc = first # rest"
    by (cases "py_sorted_reverse snd fpc") auto
  have "map_err (champion_of F names t) (take 10 (first # rest))
          = Inr (map (champion_entry F names t) (take 10 (first # rest)))"
    by (rule map_err_Inr) (rule champion_of_value)
  then show ?thesis
    using False top by (simp add: monthly_champions_def champion_of_value)
qed

lemma monthly_podium_value:
  "monthly_podium F names t pc =
     Inr (map (podium_entry F names t) (take 10 (py_sorted_reverse snd pc)))"
proof -
  have "map_err (podium_of F names t) (take 10 (py_sorted_reverse snd pc))
          = Inr (map (podium_entry F names t) (take 10 (py_sorted_reverse snd pc)))"
    by (rule map_err_Inr) (rule podium_of_value)
  then show ?thesis by (simp add: monthly_podium_def)
qed

lemma monthly_top_10_value:
  "monthly_top_10 names tc = map (top_10_of names) (take 20 (py_sorted_reverse snd tc))"
  by (simp add: monthly_top_10_def)

lemma tally_all: "tally (\<lambda>r. True) rows = map (\<lambda>pid. (pid, days_played rows pid)) (players rows)"
  by (simp add: tally_def players_def days_played_def)

lemma length_scores_of: "int (length (scores_of rows pid)) = days_played rows pid"
  by (simp add: scores_of_def days_played_def count_rows_def)

lemma scores_of_nonempty: "0 < days_played rows pid \<Longrightarrow> scores_of rows pid \<noteq> []"
  using length_scores_of [of rows pid] by auto

lemma days_played_positive: "pid \<in> set (players rows) \<Longrightarrow> 0 < days_played rows pid"
proof -
  assume "pid \<in> set (players rows)"
  then obtain r where "r \<in> set rows" "playfab_id r = pid"
    by (auto simp: players_def)
  then have "filter (\<lambda>r. playfab_id r = pid) rows \<noteq> []"
    by (auto simp: filter_empty_conv)
  then show ?thesis
    by (simp add: days_played_def count_rows_def)
qed

lemma scores_dict_lookup:
  assumes "pid \<in> set (players rows)"
  shows "map_of (map (\<lambda>pid. (pid, scores_of rows pid)) (players rows)) pid
           = Some (scores_of rows pid)"
  using assms by (simp add: map_of_map_restrict)

lemma map_filter_if:
  "List.map_filter (\<lambda>x. x) (map (\<lambda>x. if P x then Some (f x) else None) xs)
     = map f (filter P xs)"
  by (induction xs) simp_all

lemma monthly_consistent_of_value:
  assumes "pid \<in> set (players rows)"
  shows "monthly_consistent_of F names (map (\<lambda>pid. (pid, scores_of rows pid)) (players rows))
           (pid, days_played rows pid)
         = Inr (if 5 \<le> days_played rows pid then Some (consistent_entry F names rows pid)
                else None)"
proof (cases "5 \<le> days_played rows pid")
  case False
  then show ?thesis by (simp add: monthly_consistent_of_def)
next
  case True
  then have ne: "scores_of rows pid \<noteq> []"
    by (intro scores_of_nonempty) simp
  show ?thesis
    using True
    by (simp add: monthly_consistent_of_def Let_def dict_contains_def dict_get_def
        scores_dict_lookup [OF assms] mean_value [OF ne] py_max_value [OF ne]
        py_min_value [OF ne] consistent_entry_def)
qed

lemma weekly_consistent_of_value:
  assumes "pid \<in> set (players rows)"
  shows "weekly_consistent_of F names (map (\<lambda>pid. (pid, scores_of rows pid)) (players rows))
           (pid, days_played rows pid)
         = Inr (if 3 \<le> days_played rows pid then Some (weekly_consistent_entry F names rows pid)
                else None)"
proof (cases "3 \<le> days_played rows pid")
  case False
  then show ?thesis by (simp add: weekly_consistent_of_def)
next
  case True
  then have ne: "scores_of rows pid \<noteq> []"
    by (intro scores_of_nonempty) simp
  show ?thesis
    using True
    by (simp add: weekly_consistent_of_def Let_def dict_contains_def dict_get_def
        scores_dict_lookup [OF assms] mean_value [OF ne] weekly_consistent_entry_def)
qed

lemma monthly_consistent_value:
  "monthly_consistent F names (monthly_loop monthly_init rows) =
     Inr (take 15 (py_sorted_reverse mc_consistency_rating
            (map (consistent_entry F names rows)
               (filter (\<lambda>pid. 5 \<le> days_played rows pid) (players rows)))))"
proof -
  let ?ts = "map (\<lambda>pid. (pid, scores_of rows pid)) (players rows)"
  let ?g = "\<lambda>pid. if 5 \<le> days_played rows pid then Some (consistent_entry F names rows pid)
                   else None"
  have "map_err (monthly_consistent_of F names ?ts)
          (map (\<lambda>pid. (pid, days_played rows pid)) (players rows))
        = Inr (map (\<lambda>item. ?g (fst item)) (map (\<lambda>pid. (pid, days_played rows pid)) (players rows)))"
    by (rule map_err_Inr) (auto simp: monthly_consistent_of_value)
  then have "map_err (monthly_consistent_of F names ?ts)
          (map (\<lambda>pid. (pid, days_played rows pid)) (players rows))
        = Inr (map ?g (players rows))"
    by (simp add: comp_def)
  then show ?thesis
    by (simp add: monthly_consistent_def monthly_counts tally_all map_filter_if
        players_def [symmetric])
qed

lemma weekly_consistent_value:
  "weekly_consistent F names (weekly_loop weekly_init rows) =
     Inr (take 10 (py_sorted_reverse (\<lambda>x. (wk_days_played x, wk_average_score x))
            (map (weekly_consistent_entry F names rows)
               (filter (\<lambda>pid. 3 \<le> days_played rows pid) (players rows)))))"
proof -
  let ?ts = "map (\<lambda>pid. (pid, scores_of rows pid)) (players rows)"
  let ?g = "\<lambda>pid. if 3 \<le> days_played rows pid
                   then Some (weekly_consistent_entry F names rows pid) else None"
  have "map_err (weekly_consistent_of F names ?ts)
          (map (\<lambda>pid. (pid, days_played rows pid)) (players rows))
        = Inr (map (\<lambda>item. ?g (fst item)) (map (\<lambda>pid. (pid, days_played rows pid)) (players rows)))"
    by (rule map_err_Inr) (auto simp: weekly_consistent_of_value)
  then have "map_err (weekly_consistent_of F names ?ts)
          (map (\<lambda>pid. (pid, days_played rows pid)) (players rows))
        = Inr (map ?g (players rows))"
    by (simp add: comp_def)
  then show ?thesis
    by (simp add: weekly_consistent_def weekly_counts tally_all map_filter_if
        players_def [symmetric])
qed

lemma monthly_score_statistics_nonempty:
  assumes "ts = [] \<or> concat (map snd ts) \<noteq> []"
  shows "\<exists>st. monthly_score_statistics F ts = Inr st"
proof (cases "ts = []")
  case True
  then show ?thesis by (simp add: monthly_score_statistics_def)
next
  case False
  with assms have ne: "concat (map snd ts) \<noteq> []" by blast
  show ?thesis
    unfolding monthly_score_statistics_def Let_def
    by (simp only: mean_value [OF ne] py_max_value [OF ne] py_min_value [OF ne]) (simp add: False)
qed

lemma monthly_score_statistics_total:
  "\<exists>st. monthly_score_statistics F (map (\<lambda>pid. (pid, scores_of rows pid)) (players rows)) = Inr st"
proof (cases "players rows")
  case Nil
  then show ?thesis by (simp add: monthly_score_statistics_def)
next
  case (Cons p ps)
  then have "p \<in> set (players rows)" by simp
  then have "scores_of rows p \<noteq> []"
    by (intro scores_of_nonempty days_played_positive)
  then have "concat (map snd (map (\<lambda>pid. (pid, scores_of rows pid)) (players rows))) \<noteq> []"
    using Cons by simp
  then show ?thesis
    by (intro monthly_score_statistics_nonempty) simp
qed

lemma named_conditions:
  "(\<lambda>r. position r = 0) = first_place"
  "(\<lambda>r. position r \<le> 2) = on_podium"
  "(\<lambda>r. position r \<le> 9) = in_top_10"
  by (simp_all add: fun_eq_iff first_place_def on_podium_def in_top_10_def)

lemma monthly_report_value:
  "\<exists>avg st.
     calculate_monthly_stats F rows player_rows total_days start_date end_date =
       Inr (monthly_report_of F rows player_rows total_days start_date end_date avg st)"
proof -
  let ?acc = "monthly_loop monthly_init rows"
  obtain st where st:
    "monthly_score_statistics F (map (\<lambda>pid. (pid, scores_of rows pid)) (players rows)) = Inr st"
    using monthly_score_statistics_total [of F rows] by blast
  have "0 < max (int (length (daily_participants ?acc))) 1" by simp
  then obtain avg where avg:
    "py_truediv F (sum_list (map (\<lambda>p. int (card (snd p))) (daily_participants ?acc)))
       (max (int (length (daily_participants ?acc))) 1) = Inr avg"
    using py_truediv_positive by blast
  have "calculate_monthly_stats F rows player_rows total_days start_date end_date =
       Inr (monthly_report_of F rows player_rows total_days start_date end_date avg st)"
    unfolding calculate_monthly_stats_def Let_def monthly_report_of_def
    by (simp add: avg st monthly_champions_value monthly_podium_value monthly_top_10_value
        monthly_consistent_value monthly_counts tally_all players_def [symmetric]
        named_conditions)
  then show ?thesis by blast
qed

lemma weekly_champions_value:
  "weekly_champions names fpc =
     Inr (case py_sorted_reverse snd fpc of
            [] \<Rightarrow> None
          | first # _ \<Rightarrow>
              Some \<lparr>wc_playfab_id = fst first,
                    wc_display_name = dict_get names (fst first) ''Unknown'',
                    wc_first_place_count = snd first\<rparr>,
          map (count_entry_of names) (take 10 (py_sorted_reverse snd fpc)))"
proof (cases "fpc = []")
  case True
  then show ?thesis by (simp add: weekly_champions_def)
next
  case False
  then have "length (py_sorted_reverse snd fpc) \<noteq> 0" by simp
  then obtain first rest where top: "py_sorted_reverse snd fpc = first # rest"
    by (cases "py_sorted_reverse snd fpc") auto
  then show ?thesis
    using False by (simp add: weekly_champions_def)
qed

lemma weekly_report_value:
  "calculate_weekly_stats F rows player_rows start_date end_date =
     Inr (weekly_report_of F rows player_rows start_date end_date)"
  unfolding calculate_weekly_stats_def Let_def weekly_report_of_def
  by (simp add: weekly_champions_value weekly_consistent_value weekly_counts tally_all
      weekly_podium_def players_def [symmetric] named_conditions)

section \<open>The example windows, evaluated\<close>

lemma scenario_tallies:
  "tally first_place scenario_rows = [(''A'', 1), (''B'', 1)]"
  "tally on_podium scenario_rows = [(''A'', 2), (''B'', 2), (''C'', 2)]"
  "tally in_top_10 scenario_rows = [(''A'', 2), (''B'', 2), (''C'', 2)]"
  by (simp_all add: tally_def count_rows_def scenario_rows_def mk_row_def first_place_def
      on_podium_def in_top_10_def)

lemma scenario_players: "players scenario_rows = [''A'', ''B'', ''C'']"
  by (simp add: players_def scenario_rows_def mk_row_def)

lemma scenario_first_places_of_all:
  "map (\<lambda>pid. (pid, count_rows first_place scenario_rows pid)) (players scenario_rows)
     = [(''A'', 1), (''B'', 1), (''C'', 0)]"
  by (simp add: scenario_players) (simp add: count_rows_def scenario_rows_def mk_row_def first_place_def)

lemma consistency_players: "players consistency_rows = [''C'', ''B'', ''A'']"
  by (simp add: players_def consistency_rows_def mk_row_def)

lemma consistency_scores:
  "scores_of consistency_rows ''A'' = [1, 2, 3, 4, 5, 0]"
  "scores_of consistency_rows ''B'' = [4, 4, 4, 4, 4]"
  "scores_of consistency_rows ''C'' = [100, 100]"
  by (simp_all add: scores_of_def consistency_rows_def mk_row_def)

lemma consistency_days:
  "days_played consistency_rows ''A'' = 6"
  "days_played consistency_rows ''B'' = 5"
  "days_played consistency_rows ''C'' = 2"
  by (simp_all add: length_scores_of [symmetric] consistency_scores)

lemma exact_means:
  "float_mean exact_ops [1, 2, 3, 4, 5, 0] = 5 / 2"
  "float_mean exact_ops [4, 4, 4, 4, 4] = 4"
  by (simp_all add: float_mean_def quotient_def exact_ops_def)

lemma exact_truncations:
  "trunc exact_ops (5 / 2) = 2" "trunc exact_ops 4 = 4"
  by (simp_all add: exact_ops_def floor_eq_iff)

lemma exact_ratings:
  "fmul exact_ops (float_of_int exact_ops 6) (5 / 2) = 15"
  "fmul exact_ops (float_of_int exact_ops 5) 4 = 20"
  by (simp_all add: exact_ops_def)

lemma consistency_eligible:
  "monthly_eligible exact_ops consistency_rows = [(''B'', 5, 20), (''A'', 6, 15)]"
  "weekly_eligible exact_ops consistency_rows = [(''B'', 5, 4), (''A'', 6, 2)]"
  by (simp_all add: monthly_eligible_def weekly_eligible_def consistency_players
      consistency_days consistency_scores exact_means exact_truncations exact_ratings)

lemma sorted_examples:
  "py_sorted_reverse snd [(''A'', 1::int), (''B'', 1)] = [(''A'', 1), (''B'', 1)]"
  "py_sorted_reverse snd [(''A'', 2::int), (''B'', 2), (''C'', 2)] = [(''A'', 2), (''B'', 2), (''C'', 2)]"
  "py_sorted_reverse snd [(''A'', 1::int), (''B'', 1), (''C'', 0)] = [(''A'', 1), (''B'', 1), (''C'', 0)]"
  "py_sorted_reverse (\<lambda>x. snd (snd x)) [(''B'', 5::int, 20::rat), (''A'', 6, 15)]
     = [(''B'', 5, 20), (''A'', 6, 15)]"
  "py_sorted_reverse snd [(''B'', 5::int, 4::int), (''A'', 6, 2)] = [(''A'', 6, 2), (''B'', 5, 4)]"
  by (simp_all add: py_sorted_reverse_def less_eq_prod_def less_prod_def)

section \<open>The ranking lists\<close>

lemma pair_of_entry:
  "champion_pair (champion_entry F names t item) = item"
  "podium_pair (podium_entry F names t item) = item"
  "top_10_pair (top_10_of names item) = item"
  "count_pair (count_entry_of names item) = item"
  by (simp_all add: champion_pair_def champion_entry_def podium_pair_def
      podium_entry_def top_10_pair_def top_10_of_def count_pair_def count_entry_of_def)

lemma monthly_ranking_lists:
  "map champion_pair
     (top_champions (monthly_report_of F rows player_rows total_days start_date end_date avg st))
     = take 10 (py_sorted_reverse snd (tally first_place rows))"
  "map podium_pair
     (top_podium_finishes (monthly_report_of F rows player_rows total_days start_date end_date avg st))
     = take 10 (py_sorted_reverse snd (tally on_podium rows))"
  "map top_10_pair
     (top_10_finishes (monthly_report_of F rows player_rows total_days start_date end_date avg st))
     = take 20 (py_sorted_reverse snd (tally in_top_10 rows))"
  by (simp_all add: monthly_report_of_def comp_def pair_of_entry)

lemma weekly_ranking_lists:
  "map count_pair (top_first_places (weekly_report_of F rows player_rows start_date end_date))
     = take 10 (py_sorted_reverse snd (tally first_place rows))"
  "map count_pair (wr_top_podium_finishes (weekly_report_of F rows player_rows start_date end_date))
     = take 10 (py_sorted_reverse snd (tally on_podium rows))"
  by (simp_all add: weekly_report_of_def comp_def pair_of_entry)

text \<open>
  Claim C5, as amended. Both functions return a report for every input. Each top-N list
  holds the players with a non-zero counter (at least one first place, podium finish or
  top-10 finish), taken in the order of their first such row, sorted by descending
  counter with a stable sort and truncated: to 10 for champions and podium finishers in
  both reports, to 20 for the monthly top-10 finishers.
\<close>

theorem top_n_rankings:
  "\<exists>m w.
     calculate_monthly_stats F rows player_rows total_days start_date end_date = Inr m
     \<and> calculate_weekly_stats F rows player_rows start_date end_date = Inr w
     \<and> map champion_pair (top_champions m)
         = take 10 (py_sorted_reverse snd (tally first_place rows))
     \<and> map podium_pair (top_podium_finishes m)
         = take 10 (py_sorted_reverse snd (tally on_podium rows))
     \<and> map top_10_pair (top_10_finishes m)
         = take 20 (py_sorted_reverse snd (tally in_top_10 rows))
     \<and> map count_pair (top_first_places w)
         = take 10 (py_sorted_reverse snd (tally first_place rows))
     \<and> map count_pair (wr_top_podium_finishes w)
         = take 10 (py_sorted_reverse snd (tally on_podium rows))
     \<and> stable_desc_sorted_by snd (tally first_place rows)
           (py_sorted_reverse snd (tally first_place rows))
     \<and> stable_desc_sorted_by snd (tally on_podium rows)
           (py_sorted_reverse snd (tally on_podium rows))
     \<and> stable_desc_sorted_by snd (tally in_top_10 rows)
           (py_sorted_reverse snd (tally in_top_10 rows))"
proof -
  obtain avg st where
    "calculate_monthly_stats F rows player_rows total_days start_date end_date =
       Inr (monthly_report_of F rows player_rows total_days start_date end_date avg st)"
    using monthly_report_value by blast
  then show ?thesis
    by (simp add: weekly_report_value monthly_ranking_lists weekly_ranking_lists
        py_sorted_reverse_is_stable_desc)
qed

theorem top_n_rankings_witness:
  "\<exists>m w.
     calculate_monthly_stats exact_ops scenario_rows [] 2 ''2024-01-01'' ''2024-01-02'' = Inr m
     \<and> calculate_weekly_stats exact_ops scenario_rows [] ''2024-01-01'' ''2024-01-02'' = Inr w
     \<and> map champion_pair (top_champions m) = [(''A'', 1), (''B'', 1)]
     \<and> map podium_pair (top_podium_finishes m) = [(''A'', 2), (''B'', 2), (''C'', 2)]
     \<and> map top_10_pair (top_10_finishes m) = [(''A'', 2), (''B'', 2), (''C'', 2)]
     \<and> map count_pair (top_first_places w) = [(''A'', 1), (''B'', 1)]
     \<and> map count_pair (wr_top_podium_finishes w) = [(''A'', 2), (''B'', 2), (''C'', 2)]"
proof -
  obtain m w where
    m: "calculate_monthly_stats exact_ops scenario_rows [] 2 ''2024-01-01'' ''2024-01-02'' = Inr m"
    and w: "calculate_weekly_stats exact_ops scenario_rows [] ''2024-01-01'' ''2024-01-02'' = Inr w"
    and lists:
      "map champion_pair (top_champions m)
         = take 10 (py_sorted_reverse snd (tally first_place scenario_rows))"
      "map podium_pair (top_podium_finishes m)
         = take 10 (py_sorted_reverse snd (tally on_podium scenario_rows))"
      "map top_10_pair (top_10_finishes m)
         = take 20 (py_sorted_reverse snd (tally in_top_10 scenario_rows))"
      "map count_pair (top_first_places w)
         = take 10 (py_sorted_reverse snd (tally first_place scenario_rows))"
      "map count_pair (wr_top_podium_finishes w)
         = take 10 (py_sorted_reverse snd (tally on_podium scenario_rows))"
    using top_n_rankings [of exact_ops scenario_rows "[]" 2 "''2024-01-01''" "''2024-01-02''"]
    by (elim exE conjE) (rule that; assumption)
  have "map champion_pair (top_champions m) = [(''A'', 1), (''B'', 1)]"
    "map podium_pair (top_podium_finishes m) = [(''A'', 2), (''B'', 2), (''C'', 2)]"
    "map top_10_pair (top_10_finishes m) = [(''A'', 2), (''B'', 2), (''C'', 2)]"
    "map count_pair (top_first_places w) = [(''A'', 1), (''B'', 1)]"
    "map count_pair (wr_top_podium_finishes w) = [(''A'', 2), (''B'', 2), (''C'', 2)]"
    unfolding lists scenario_tallies sorted_examples by simp_all
  with m w show ?thesis by (intro exI conjI)
qed

text \<open>
  In the two-day scenario player \<open>C\<close> never wins: the top champions hold two entries,
  a ranking of the aggregates of all players would hold three.
\<close>

theorem top_n_rankings_counterexample:
  "(case calculate_monthly_stats exact_ops scenario_rows [] 2 ''2024-01-01'' ''2024-01-02'' of
      Inl err \<Rightarrow> []
    | Inr m \<Rightarrow> map champion_pair (top_champions m)) = [(''A'', 1), (''B'', 1)]
   \<and> ranking_of_all_players 10 first_place scenario_rows = [(''A'', 1), (''B'', 1), (''C'', 0)]"
proof -
  obtain avg st where
    "calculate_monthly_stats exact_ops scenario_rows [] 2 ''2024-01-01'' ''2024-01-02'' =
       Inr (monthly_report_of exact_ops scenario_rows [] 2 ''2024-01-01'' ''2024-01-02'' avg st)"
    using monthly_report_value by blast
  then show ?thesis
    by (simp add: monthly_ranking_lists scenario_tallies sorted_examples
        ranking_of_all_players_def scenario_first_places_of_all)
qed

section \<open>The consistency ranking\<close>

lemma monthly_consistency_list:
  "map monthly_consistency_triple
     (most_consistent (monthly_report_of F rows player_rows total_days start_date end_date avg st))
     = take 15 (py_sorted_reverse (\<lambda>x. snd (snd x)) (monthly_eligible F rows))"
proof -
  let ?entries = "map (consistent_entry F (build_player_names player_rows) rows)
                    (filter (\<lambda>pid. 5 \<le> days_played rows pid) (players rows))"
  have key: "mc_consistency_rating = (\<lambda>c. snd (snd (monthly_consistency_triple c)))"
    by (simp add: fun_eq_iff monthly_consistency_triple_def)
  have sorted: "map monthly_consistency_triple (py_sorted_reverse mc_consistency_rating ?entries)
          = py_sorted_reverse (\<lambda>x. snd (snd x)) (map monthly_consistency_triple ?entries)"
    unfolding key by (rule map_py_sorted_reverse)
  have items: "map monthly_consistency_triple ?entries = monthly_eligible F rows"
    by (simp add: monthly_eligible_def monthly_consistency_triple_def consistent_entry_def
        comp_def)
  have "map monthly_consistency_triple
          (take 15 (py_sorted_reverse mc_consistency_rating ?entries))
        = take 15 (map monthly_consistency_triple
            (py_sorted_reverse mc_consistency_rating ?entries))"
    by (rule take_map [symmetric])
  also have "\<dots> = take 15 (py_sorted_reverse (\<lambda>x. snd (snd x)) (monthly_eligible F rows))"
    by (simp only: sorted items)
  finally show ?thesis
    by (simp add: monthly_report_of_def)
qed

lemma weekly_consistency_list:
  "map weekly_consistency_triple
     (wr_most_consistent (weekly_report_of F rows player_rows start_date end_date))
     = take 10 (py_sorted_reverse snd (weekly_eligible F rows))"
proof -
  let ?entries = "map (weekly_consistent_entry F (build_player_names player_rows) rows)
                    (filter (\<lambda>pid. 3 \<le> days_played rows pid) (players rows))"
  have key: "(\<lambda>x. (wk_days_played x, wk_average_score x))
               = (\<lambda>c. snd (weekly_consistency_triple c))"
    by (simp add: fun_eq_iff weekly_consistency_triple_def)
  have sorted: "map weekly_consistency_triple
          (py_sorted_reverse (\<lambda>x. (wk_days_played x, wk_average_score x)) ?entries)
          = py_sorted_reverse snd (map weekly_consistency_triple ?entries)"
    unfolding key by (rule map_py_sorted_reverse)
  have items: "map weekly_consistency_triple ?entries = weekly_eligible F rows"
    by (simp add: weekly_eligible_def weekly_consistency_triple_def weekly_consistent_entry_def
        comp_def)
  have "map weekly_consistency_triple
          (take 10 (py_sorted_reverse (\<lambda>x. (wk_days_played x, wk_average_score x)) ?entries))
        = take 10 (map weekly_consistency_triple
            (py_sorted_reverse (\<lambda>x. (wk_days_played x, wk_average_score x)) ?entries))"
    by (rule take_map [symmetric])
  also have "\<dots> = take 10 (py_sorted_reverse snd (weekly_eligible F rows))"
    by (simp only: sorted items)
  finally show ?thesis
    by (simp add: weekly_report_of_def)
qed

subsection \<open>Rows counted and dates counted\<close>

text \<open>The example with equal truncated means and the example with repeated dates.\<close>

lemma tie_players: "players tie_rows = [''X'', ''Y'']"
  by (simp add: players_def tie_rows_def mk_row_def)

lemma tie_scores:
  "scores_of tie_rows ''X'' = [4, 4, 5]"
  "scores_of tie_rows ''Y'' = [4, 5, 5]"
  by (simp_all add: scores_of_def tie_rows_def mk_row_def)

lemma tie_days:
  "days_played tie_rows ''X'' = 3" "days_played tie_rows ''Y'' = 3"
  by (simp_all add: length_scores_of [symmetric] tie_scores)

lemma tie_distinct_days:
  "distinct_days tie_rows ''X'' = 3" "distinct_days tie_rows ''Y'' = 3"
  by (simp_all add: distinct_days_def tie_rows_def mk_row_def)

lemma tie_means:
  "float_mean exact_ops [4, 4, 5] = 13 / 3"
  "float_mean exact_ops [4, 5, 5] = 14 / 3"
  by (simp_all add: float_mean_def quotient_def exact_ops_def)

lemma tie_truncations:
  "trunc exact_ops (13 / 3) = 4" "trunc exact_ops (14 / 3) = 4"
  by (simp_all add: exact_ops_def floor_eq_iff)

lemma tie_weekly_eligible:
  "weekly_eligible exact_ops tie_rows = [(''X'', 3, 4), (''Y'', 3, 4)]"
  by (simp add: weekly_eligible_def tie_players tie_days tie_scores tie_means tie_truncations)

lemma tie_claimed:
  "claimed_weekly_ranking exact_ops tie_rows = [(''Y'', 3, 14 / 3), (''X'', 3, 13 / 3)]"
  by (simp add: claimed_weekly_ranking_def tie_players tie_distinct_days tie_scores tie_means
      py_sorted_reverse_def less_eq_prod_def less_prod_def)

text \<open>Without two rows of a player on one date, rows and dates are counted alike.\<close>

lemma days_played_distinct_days:
  assumes "distinct (map (\<lambda>r. (stat_date r, playfab_id r)) rows)"
  shows "days_played rows pid = distinct_days rows pid"
proof -
  let ?mine = "filter (\<lambda>r. playfab_id r = pid) rows"
  have "distinct (map (\<lambda>r. (stat_date r, playfab_id r)) ?mine)"
    using assms by (rule distinct_map_filter)
  moreover have "map (\<lambda>r. (stat_date r, playfab_id r)) ?mine
                   = map (\<lambda>d. (d, pid)) (map stat_date ?mine)"
    by (induction rows) simp_all
  ultimately have "distinct (map (\<lambda>d. (d, pid)) (map stat_date ?mine))" by simp
  then have "distinct (map stat_date ?mine)"
    by (auto simp: distinct_map inj_on_def)
  then have "length (remdups (map stat_date ?mine)) = length ?mine"
    by (simp only: distinct_remdups_id length_map)
  then show ?thesis
    unfolding days_played_def count_rows_def distinct_days_def by simp
qed

lemma repeat_players: "players repeat_rows = [''D'']"
  by (simp add: players_def repeat_rows_def mk_row_def)

lemma repeat_scores: "scores_of repeat_rows ''D'' = [10, 9, 8, 10, 8]"
  by (simp add: scores_of_def repeat_rows_def mk_row_def)

lemma repeat_days: "days_played repeat_rows ''D'' = 5"
  by (simp add: length_scores_of [symmetric] repeat_scores)

lemma repeat_distinct_days: "distinct_days repeat_rows ''D'' = 2"
  by (simp add: distinct_days_def repeat_rows_def mk_row_def)

lemma repeat_mean:
  "float_mean exact_ops [10, 9, 8, 10, 8] = 9" "trunc exact_ops 9 = 9"
  "fmul exact_ops (float_of_int exact_ops 5) 9 = 45"
  by (simp_all add: float_mean_def quotient_def exact_ops_def)

lemma repeat_weekly_eligible: "weekly_eligible exact_ops repeat_rows = [(''D'', 5, 9)]"
  by (simp add: weekly_eligible_def repeat_players repeat_days repeat_scores repeat_mean)

lemma repeat_monthly_eligible: "monthly_eligible exact_ops repeat_rows = [(''D'', 5, 45)]"
  by (simp add: monthly_eligible_def repeat_players repeat_days repeat_scores repeat_mean)

lemma repeat_claimed:
  "claimed_weekly_ranking exact_ops repeat_rows = []"
  "claimed_monthly_ranking exact_ops repeat_rows = []"
  by (simp_all add: claimed_weekly_ranking_def claimed_monthly_ranking_def repeat_players
      repeat_distinct_days py_sorted_reverse_def)

lemma weekly_consistency_ids:
  "map wk_playfab_id (wr_most_consistent (weekly_report_of F rows player_rows start_date end_date))
     = map fst (take 10 (py_sorted_reverse snd (weekly_eligible F rows)))"
proof -
  have "map wk_playfab_id cs = map fst (map weekly_consistency_triple cs)" for cs
    by (simp add: weekly_consistency_triple_def comp_def)
  then show ?thesis by (simp only: weekly_consistency_list)
qed

lemma monthly_consistency_ids:
  "map mc_playfab_id
     (most_consistent (monthly_report_of F rows player_rows total_days start_date end_date avg st))
     = map fst (take 15 (py_sorted_reverse (\<lambda>x. snd (snd x)) (monthly_eligible F rows)))"
proof -
  have "map mc_playfab_id cs = map fst (map monthly_consistency_triple cs)"
    for cs :: "'a consistent_entry list"
    by (simp add: monthly_consistency_triple_def comp_def)
  then show ?thesis by (simp only: monthly_consistency_list)
qed

subsection \<open>The ranking of the reports\<close>

text \<open>
  Claim C4, as amended. Both functions return a report for every input. With
  \<open>days_played\<close> the number of records of the player in the window, the consistency
  ranking is built from exactly the players with \<open>days_played\<close> at least 5 (monthly)
  or 3 (weekly), in the order of their first row; the monthly entries are sorted by
  descending rating, the product of \<open>days_played\<close> and the floating-point mean score,
  the weekly ones by descending pair of \<open>days_played\<close> and the mean score truncated to
  an integer (the entry's \<open>average_score\<close>), in lexicographic order; the sort is stable
  and the list is cut to 15 (monthly) or 10 (weekly) entries.
\<close>

theorem consistency_rankings:
  "\<exists>m w.
     calculate_monthly_stats F rows player_rows total_days start_date end_date = Inr m
     \<and> calculate_weekly_stats F rows player_rows start_date end_date = Inr w
     \<and> map monthly_consistency_triple (most_consistent m)
         = take 15 (py_sorted_reverse (\<lambda>x. snd (snd x)) (monthly_eligible F rows))
     \<and> map weekly_consistency_triple (wr_most_consistent w)
         = take 10 (py_sorted_reverse snd (weekly_eligible F rows))
     \<and> stable_desc_sorted_by (\<lambda>x. snd (snd x)) (monthly_eligible F rows)
           (py_sorted_reverse (\<lambda>x. snd (snd x)) (monthly_eligible F rows))
     \<and> stable_desc_sorted_by snd (weekly_eligible F rows)
           (py_sorted_reverse snd (weekly_eligible F rows))"
proof -
  obtain avg st where
    "calculate_monthly_stats F rows player_rows total_days start_date end_date =
       Inr (monthly_report_of F rows player_rows total_days start_date end_date avg st)"
    using monthly_report_value by blast
  then show ?thesis
    by (simp add: weekly_report_value monthly_consistency_list weekly_consistency_list
        py_sorted_reverse_is_stable_desc)
qed

theorem consistency_rankings_witness:
  "\<exists>m w.
     calculate_monthly_stats exact_ops consistency_rows [] 6 ''2024-03-01'' ''2024-03-31'' = Inr m
     \<and> calculate_weekly_stats exact_ops consistency_rows [] ''2024-03-01'' ''2024-03-31'' = Inr w
     \<and> map monthly_consistency_triple (most_consistent m) = [(''B'', 5, 20), (''A'', 6, 15)]
     \<and> map weekly_consistency_triple (wr_most_consistent w) = [(''A'', 6, 2), (''B'', 5, 4)]"
proof -
  obtain m w where
    m: "calculate_monthly_stats exact_ops consistency_rows [] 6 ''2024-03-01'' ''2024-03-31'' = Inr m"
    and w: "calculate_weekly_stats exact_ops consistency_rows [] ''2024-03-01'' ''2024-03-31'' = Inr w"
    and lists:
      "map monthly_consistency_triple (most_consistent m)
         = take 15 (py_sorted_reverse (\<lambda>x. snd (snd x)) (monthly_eligible exact_ops consistency_rows))"
      "map weekly_consistency_triple (wr_most_consistent w)
         = take 10 (py_sorted_reverse snd (weekly_eligible exact_ops consistency_rows))"
    using consistency_rankings [of exact_ops consistency_rows "[]" 6 "''2024-03-01''" "''2024-03-31''"]
    by (elim exE conjE) (rule that; assumption)
  have "map monthly_consistency_triple (most_consistent m) = [(''B'', 5, 20), (''A'', 6, 15)]"
    "map weekly_consistency_triple (wr_most_consistent w) = [(''A'', 6, 2), (''B'', 5, 4)]"
    unfolding lists consistency_eligible sorted_examples by simp_all
  with m w show ?thesis by (intro exI conjI)
qed

text \<open>
  With days played the distinct dates and the average score the floating-point mean, as
  the specification defines them, the claim fails in two ways. On the three-day example
  both players have 3 days and the means are 13/3 and 14/3: the weekly report lists \<open>X\<close>
  before \<open>Y\<close>, the order of their first rows, because both means truncate to 4, while the
  descending pair of days and mean puts \<open>Y\<close> first. On the example with repeated dates
  the player has 2 distinct dates and would be in no ranking, yet five rows put the player
  in the weekly and in the monthly one.
\<close>

theorem consistency_rankings_counterexample:
  "(case calculate_weekly_stats exact_ops tie_rows [] ''2024-01-01'' ''2024-01-07'' of
      Inl err \<Rightarrow> []
    | Inr w \<Rightarrow> map wk_playfab_id (wr_most_consistent w)) = [''X'', ''Y'']
   \<and> float_mean exact_ops (scores_of tie_rows ''X'') = 13 / 3
   \<and> float_mean exact_ops (scores_of tie_rows ''Y'') = 14 / 3
   \<and> map fst (claimed_weekly_ranking exact_ops tie_rows) = [''Y'', ''X'']
   \<and> (case calculate_weekly_stats exact_ops repeat_rows [] ''2024-01-01'' ''2024-01-07'' of
      Inl err \<Rightarrow> []
    | Inr w \<Rightarrow> map wk_playfab_id (wr_most_consistent w)) = [''D'']
   \<and> (case calculate_monthly_stats exact_ops repeat_rows [] 2 ''2024-01-01'' ''2024-01-31'' of
      Inl err \<Rightarrow> []
    | Inr m \<Rightarrow> map mc_playfab_id (most_consistent m)) = [''D'']
   \<and> distinct_days repeat_rows ''D'' = 2
   \<and> claimed_weekly_ranking exact_ops repeat_rows = []
   \<and> claimed_monthly_ranking exact_ops repeat_rows = []"
proof -
  have code_tie:
    "(case calculate_weekly_stats exact_ops tie_rows [] ''2024-01-01'' ''2024-01-07'' of
        Inl err \<Rightarrow> []
      | Inr w \<Rightarrow> map wk_playfab_id (wr_most_consistent w)) = [''X'', ''Y'']"
    by (simp add: weekly_report_value weekly_consistency_ids tie_weekly_eligible
        py_sorted_reverse_def)
  have code_repeat:
    "(case calculate_weekly_stats exact_ops repeat_rows [] ''2024-01-01'' ''2024-01-07'' of
        Inl err \<Rightarrow> []
      | Inr w \<Rightarrow> map wk_playfab_id (wr_most_consistent w)) = [''D'']"
    by (simp add: weekly_report_value weekly_consistency_ids repeat_weekly_eligible
        py_sorted_reverse_def)
  obtain avg st where
    "calculate_monthly_stats exact_ops repeat_rows [] 2 ''2024-01-01'' ''2024-01-31'' =
       Inr (monthly_report_of exact_ops repeat_rows [] 2 ''2024-01-01'' ''2024-01-31'' avg st)"
    using monthly_report_value by blast
  then have code_month:
    "(case calculate_monthly_stats exact_ops repeat_rows [] 2 ''2024-01-01'' ''2024-01-31'' of
        Inl err \<Rightarrow> []
      | Inr m \<Rightarrow> map mc_playfab_id (most_consistent m)) = [''D'']"
    by (simp add: monthly_consistency_ids repeat_monthly_eligible py_sorted_reverse_def)
  have means:
    "float_mean exact_ops (scores_of tie_rows ''X'') = 13 / 3"
    "float_mean exact_ops (scores_of tie_rows ''Y'') = 14 / 3"
    by (simp_all only: tie_scores tie_means)
  have claimed: "map fst (claimed_weekly_ranking exact_ops tie_rows) = [''Y'', ''X'']"
    by (simp only: tie_claimed list.map fst_conv)
  from code_tie means claimed code_repeat code_month repeat_distinct_days repeat_claimed
  show ?thesis by (intro conjI)
qed

section \<open>Percentages and averages\<close>

lemma tally_positive:
  assumes "item \<in> set (tally P rows)"
  shows "0 < snd item"
proof -
  from assms obtain pid where item: "item = (pid, count_rows P rows pid)"
    and "pid \<in> set (map playfab_id (filter P rows))"
    by (auto simp: tally_def)
  then obtain r where "r \<in> set rows" "P r" "playfab_id r = pid" by auto
  then have "filter (\<lambda>r. P r \<and> playfab_id r = pid) rows \<noteq> []"
    by (auto simp: filter_empty_conv)
  then show ?thesis by (simp add: item count_rows_def)
qed

lemma percent_value_formula:
  assumes "0 \<le> t" "0 < c"
  shows "percent_value F c t =
           (if t = 0 then PyInt 0
            else PyFloat (fmul F (truediv F c t) (float_of_int F 100)))"
  using assms by (simp add: percent_value_def quotient_def)

lemma champion_entries_percentage:
  assumes "0 \<le> t" and "c \<in> set (map (champion_entry F names t) items)"
    and "set items \<subseteq> set (tally P rows)"
  shows "ch_win_percentage c =
           (if t = 0 then PyInt 0
            else PyFloat (fmul F (truediv F (ch_first_place_count c) t) (float_of_int F 100)))"
proof -
  from assms(2) obtain item where "item \<in> set items" and c: "c = champion_entry F names t item"
    by auto
  with assms(3) have "0 < snd item" using tally_positive by blast
  then show ?thesis
    using percent_value_formula [OF assms(1), of "snd item" F]
    by (simp add: c champion_entry_def)
qed

lemma champion_of_report:
  assumes "c \<in> set_option
             (monthly_champion (monthly_report_of F rows player_rows t start_date end_date avg st))"
  shows "c \<in> set (map (champion_entry F (build_player_names player_rows) t)
                    (py_sorted_reverse snd (tally first_place rows)))"
proof (cases "py_sorted_reverse snd (tally first_place rows)")
  case Nil
  with assms show ?thesis by (simp add: monthly_report_of_def)
next
  case (Cons first rest)
  with assms have "c = champion_entry F (build_player_names player_rows) t first"
    by (simp add: monthly_report_of_def)
  then show ?thesis
    unfolding Cons by simp
qed

text \<open>
  Claim C6. The monthly function returns a report for every input; the report carries the
  number of tracked days it was given (the result of the day-count query, not negative),
  and the \<open>win_percentage\<close> of the champion and of every entry of the top champions is
  the float \<open>first_place_count / total_days * 100\<close>, and the integer 0 when no day is
  tracked.
\<close>

theorem win_percentage_formula:
  assumes "0 \<le> total_days"
  shows "\<exists>m.
     calculate_monthly_stats F rows player_rows total_days start_date end_date = Inr m
     \<and> total_days_tracked (participation m) = total_days
     \<and> (\<forall>c \<in> set (top_champions m) \<union> set_option (monthly_champion m).
           ch_win_percentage c =
             (if total_days = 0 then PyInt 0
              else PyFloat (fmul F (truediv F (ch_first_place_count c) total_days)
                              (float_of_int F 100))))"
proof -
  let ?names = "build_player_names player_rows"
  let ?top = "py_sorted_reverse snd (tally first_place rows)"
  obtain avg st where m:
    "calculate_monthly_stats F rows player_rows total_days start_date end_date =
       Inr (monthly_report_of F rows player_rows total_days start_date end_date avg st)"
    using monthly_report_value by blast
  let ?m = "monthly_report_of F rows player_rows total_days start_date end_date avg st"
  have formula: "ch_win_percentage c =
             (if total_days = 0 then PyInt 0
              else PyFloat (fmul F (truediv F (ch_first_place_count c) total_days)
                              (float_of_int F 100)))"
    if "c \<in> set (map (champion_entry F ?names total_days) items)" "set items \<subseteq> set ?top"
    for c items
    using champion_entries_percentage [OF assms that(1), of first_place rows] that(2) by simp
  have "top_champions ?m = map (champion_entry F ?names total_days) (take 10 ?top)"
    by (simp add: monthly_report_of_def)
  then have a: "\<forall>c \<in> set (top_champions ?m). ch_win_percentage c =
             (if total_days = 0 then PyInt 0
              else PyFloat (fmul F (truediv F (ch_first_place_count c) total_days)
                              (float_of_int F 100)))"
    using formula [of _ "take 10 ?top"] set_take_subset [of 10 ?top] by simp
  have b: "\<forall>c \<in> set_option (monthly_champion ?m). ch_win_percentage c =
             (if total_days = 0 then PyInt 0
              else PyFloat (fmul F (truediv F (ch_first_place_count c) total_days)
                              (float_of_int F 100)))"
    using formula [of _ ?top] champion_of_report [of _ F rows player_rows total_days] by blast
  have "total_days_tracked (participation ?m) = total_days"
    by (simp add: monthly_report_of_def)
  with a b m show ?thesis by (intro exI [of _ ?m]) blast
qed

theorem win_percentage_formula_witness:
  "(0::int) \<le> 2
   \<and> (\<exists>m. calculate_monthly_stats exact_ops scenario_rows [] 2 ''2024-01-01'' ''2024-01-02'' = Inr m
          \<and> map ch_first_place_count (top_champions m) = [1, 1]
          \<and> map ch_win_percentage (top_champions m) = [PyFloat 50, PyFloat 50]
          \<and> map_option ch_win_percentage (monthly_champion m) = Some (PyFloat 50))"
proof -
  have h: "(0::int) \<le> 2" by simp
  obtain m where
    m: "calculate_monthly_stats exact_ops scenario_rows [] 2 ''2024-01-01'' ''2024-01-02'' = Inr m"
    and pct: "\<forall>c \<in> set (top_champions m) \<union> set_option (monthly_champion m).
           ch_win_percentage c =
             (if (2::int) = 0 then PyInt 0
              else PyFloat (fmul exact_ops (truediv exact_ops (ch_first_place_count c) 2)
                              (float_of_int exact_ops 100)))"
    using win_percentage_formula [OF h, of exact_ops scenario_rows "[]" "''2024-01-01''" "''2024-01-02''"]
    by (elim exE conjE) (rule that; assumption)
  obtain avg st where
    "calculate_monthly_stats exact_ops scenario_rows [] 2 ''2024-01-01'' ''2024-01-02'' =
       Inr (monthly_report_of exact_ops scenario_rows [] 2 ''2024-01-01'' ''2024-01-02'' avg st)"
    using monthly_report_value by blast
  with m have r: "m = monthly_report_of exact_ops scenario_rows [] 2 ''2024-01-01'' ''2024-01-02'' avg st"
    by simp
  have top: "top_champions m = [champion_entry exact_ops [] 2 (''A'', 1),
                                champion_entry exact_ops [] 2 (''B'', 1)]"
    and champ: "monthly_champion m = Some (champion_entry exact_ops [] 2 (''A'', 1))"
    by (simp_all add: r monthly_report_of_def scenario_tallies sorted_examples
        build_player_names_def)
  have counts: "map ch_first_place_count (top_champions m) = [1, 1]"
    by (simp add: top champion_entry_def)
  have fifty: "ch_win_percentage c = PyFloat 50"
    if "c \<in> set (top_champions m) \<union> set_option (monthly_champion m)" for c
  proof -
    from that have "ch_first_place_count c = 1"
      by (auto simp: top champ champion_entry_def)
    with pct that show ?thesis
      by (simp add: exact_ops_def)
  qed
  have "map ch_win_percentage (top_champions m) = map (\<lambda>c. PyFloat 50) (top_champions m)"
    by (intro map_cong refl fifty) simp
  then have pcts: "map ch_win_percentage (top_champions m) = [PyFloat 50, PyFloat 50]"
    by (simp add: top)
  have "map_option ch_win_percentage (monthly_champion m) = Some (PyFloat 50)"
    using fifty [of "champion_entry exact_ops [] 2 (''A'', 1)"] by (simp add: champ)
  with h m counts pcts show ?thesis by (intro conjI exI)
qed

lemma consistent_entries_of_report:
  assumes "c \<in> set (most_consistent
             (monthly_report_of F rows player_rows t start_date end_date avg st))"
  shows "\<exists>pid. 5 \<le> days_played rows pid
           \<and> c = consistent_entry F (build_player_names player_rows) rows pid"
proof -
  let ?entries = "map (consistent_entry F (build_player_names player_rows) rows)
                    (filter (\<lambda>pid. 5 \<le> days_played rows pid) (players rows))"
  from assms have "c \<in> set (take 15 (py_sorted_reverse mc_consistency_rating ?entries))"
    by (simp add: monthly_report_of_def)
  then have "c \<in> set (py_sorted_reverse mc_consistency_rating ?entries)"
    by (rule in_set_takeD)
  then have "c \<in> set ?entries" by (simp only: set_py_sorted_reverse)
  then show ?thesis by auto
qed

text \<open>
  Claim C7, as amended. In the monthly report every entry of the consistency ranking
  holds the mean score of its player truncated to an integer in \<open>average_score\<close> and the
  unrounded mean, multiplied by the days played, in \<open>consistency_rating\<close>. The rounding
  to 2 decimal places belongs to the player summary of the export tool, whose
  \<open>average_score\<close> is \<open>round(avg, 2)\<close> of the store's average, and the integer 0 when
  the average is absent or zero.
\<close>

theorem average_score_fields:
  "\<exists>m.
     calculate_monthly_stats F rows player_rows total_days start_date end_date = Inr m
     \<and> (\<forall>c \<in> set (most_consistent m).
           mc_average_score c = truncated_average F rows (mc_playfab_id c)
           \<and> mc_consistency_rating c =
               fmul F (float_of_int F (mc_days_played c))
                 (float_mean F (scores_of rows (mc_playfab_id c)))
           \<and> mc_days_played c = days_played rows (mc_playfab_id c)
           \<and> 5 \<le> mc_days_played c)
     \<and> summary_average_score F None = PyInt 0
     \<and> summary_average_score F (Some (float_of_int F 0)) = PyInt 0
     \<and> (x \<noteq> float_of_int F 0 \<longrightarrow> summary_average_score F (Some x) = PyFloat (round2 F x))"
proof -
  obtain avg st where m:
    "calculate_monthly_stats F rows player_rows total_days start_date end_date =
       Inr (monthly_report_of F rows player_rows total_days start_date end_date avg st)"
    using monthly_report_value by blast
  let ?m = "monthly_report_of F rows player_rows total_days start_date end_date avg st"
  have "mc_average_score c = truncated_average F rows (mc_playfab_id c)
           \<and> mc_consistency_rating c =
               fmul F (float_of_int F (mc_days_played c))
                 (float_mean F (scores_of rows (mc_playfab_id c)))
           \<and> mc_days_played c = days_played rows (mc_playfab_id c)
           \<and> 5 \<le> mc_days_played c"
    if "c \<in> set (most_consistent ?m)" for c
    using consistent_entries_of_report [OF that]
    by (auto simp: consistent_entry_def truncated_average_def)
  then have entries: "\<forall>c \<in> set (most_consistent ?m).
           mc_average_score c = truncated_average F rows (mc_playfab_id c)
           \<and> mc_consistency_rating c =
               fmul F (float_of_int F (mc_days_played c))
                 (float_mean F (scores_of rows (mc_playfab_id c)))
           \<and> mc_days_played c = days_played rows (mc_playfab_id c)
           \<and> 5 \<le> mc_days_played c"
    by blast
  have "summary_average_score F None = PyInt 0"
    "summary_average_score F (Some (float_of_int F 0)) = PyInt 0"
    "x \<noteq> float_of_int F 0 \<longrightarrow> summary_average_score F (Some x) = PyFloat (round2 F x)"
    by (simp_all add: summary_average_score_def)
  with m entries show ?thesis
    by (intro exI [of _ ?m] conjI)
qed

theorem average_score_fields_witness:
  "\<exists>m.
     calculate_monthly_stats exact_ops consistency_rows [] 6 ''2024-03-01'' ''2024-03-31'' = Inr m
     \<and> map mc_playfab_id (most_consistent m) = [''B'', ''A'']
     \<and> map mc_average_score (most_consistent m) = [4, 2]
     \<and> map mc_consistency_rating (most_consistent m) = [20, 15]
     \<and> summary_average_score exact_ops (Some (5 / 2)) = PyFloat (5 / 2)"
proof -
  obtain m where
    m: "calculate_monthly_stats exact_ops consistency_rows [] 6 ''2024-03-01'' ''2024-03-31'' = Inr m"
    and fields: "\<forall>c \<in> set (most_consistent m).
           mc_average_score c = truncated_average exact_ops consistency_rows (mc_playfab_id c)
           \<and> mc_consistency_rating c =
               fmul exact_ops (float_of_int exact_ops (mc_days_played c))
                 (float_mean exact_ops (scores_of consistency_rows (mc_playfab_id c)))
           \<and> mc_days_played c = days_played consistency_rows (mc_playfab_id c)
           \<and> 5 \<le> mc_days_played c"
    and summary: "(5 / 2 :: rat) \<noteq> float_of_int exact_ops 0 \<longrightarrow>
           summary_average_score exact_ops (Some (5 / 2)) = PyFloat (round2 exact_ops (5 / 2))"
    using average_score_fields [of exact_ops consistency_rows "[]" 6 "''2024-03-01''" "''2024-03-31''" "5 / 2"]
    by (elim exE conjE) (rule that; assumption)
  obtain avg st where
    "calculate_monthly_stats exact_ops consistency_rows [] 6 ''2024-03-01'' ''2024-03-31'' =
       Inr (monthly_report_of exact_ops consistency_rows [] 6 ''2024-03-01'' ''2024-03-31'' avg st)"
    using monthly_report_value by blast
  with m have r: "m = monthly_report_of exact_ops consistency_rows [] 6 ''2024-03-01'' ''2024-03-31'' avg st"
    by simp
  have "map monthly_consistency_triple (most_consistent m) = [(''B'', 5, 20), (''A'', 6, 15)]"
    unfolding r monthly_consistency_list consistency_eligible sorted_examples by simp
  then have ids: "map mc_playfab_id (most_consistent m) = [''B'', ''A'']"
    and ratings: "map mc_consistency_rating (most_consistent m) = [20, 15]"
    by (auto simp: monthly_consistency_triple_def map_eq_Cons_conv)
  have "map mc_average_score (most_consistent m)
          = map (\<lambda>c. truncated_average exact_ops consistency_rows (mc_playfab_id c)) (most_consistent m)"
    using fields by (intro map_cong refl) simp
  also have "\<dots> = map (truncated_average exact_ops consistency_rows) (map mc_playfab_id (most_consistent m))"
    by (simp add: comp_def)
  also have "\<dots> = [4, 2]"
    by (simp add: ids truncated_average_def consistency_scores exact_means exact_truncations)
  finally have avgs: "map mc_average_score (most_consistent m) = [4, 2]" .
  have "round2 exact_ops (5 / 2) = 5 / 2"
    by (simp add: exact_ops_def round_half_even_def)
  with summary have "summary_average_score exact_ops (Some (5 / 2)) = PyFloat (5 / 2)"
    by (simp add: exact_ops_def)
  with m ids avgs ratings show ?thesis by (intro exI conjI)
qed

text \<open>
  With six scores of mean 2.5 the \<open>average_score\<close> of the monthly entry is 2, while the
  mean rounded to 2 decimal places is 2.5.
\<close>

theorem average_score_fields_counterexample:
  "(case calculate_monthly_stats exact_ops consistency_rows [] 6 ''2024-03-01'' ''2024-03-31'' of
      Inl err \<Rightarrow> []
    | Inr m \<Rightarrow> map (\<lambda>c. (mc_playfab_id c, float_of_int exact_ops (mc_average_score c)))
                 (most_consistent m))
     = [(''B'', 4), (''A'', 2)]
   \<and> rounded_average exact_ops consistency_rows ''A'' = 5 / 2
   \<and> (2 :: rat) \<noteq> 5 / 2"
proof -
  obtain avg st where r:
    "calculate_monthly_stats exact_ops consistency_rows [] 6 ''2024-03-01'' ''2024-03-31'' =
       Inr (monthly_report_of exact_ops consistency_rows [] 6 ''2024-03-01'' ''2024-03-31'' avg st)"
    using monthly_report_value by blast
  let ?m = "monthly_report_of exact_ops consistency_rows [] 6 ''2024-03-01'' ''2024-03-31'' avg st"
  have entries: "most_consistent ?m =
      [consistent_entry exact_ops [] consistency_rows ''B'',
       consistent_entry exact_ops [] consistency_rows ''A'']"
  proof -
    have "py_sorted_reverse mc_consistency_rating
            [consistent_entry exact_ops [] consistency_rows ''B'',
             consistent_entry exact_ops [] consistency_rows ''A'']
          = [consistent_entry exact_ops [] consistency_rows ''B'',
             consistent_entry exact_ops [] consistency_rows ''A'']"
      by (simp add: py_sorted_reverse_def consistent_entry_def consistency_days
          consistency_scores exact_means exact_ratings)
    then show ?thesis
      by (simp add: monthly_report_of_def consistency_players consistency_days
          build_player_names_def)
  qed
  have "map (\<lambda>c. (mc_playfab_id c, float_of_int exact_ops (mc_average_score c)))
          (most_consistent ?m) = [(''B'', 4), (''A'', 2)]"
    by (simp add: entries consistent_entry_def consistency_scores exact_means
        exact_truncations) (simp add: exact_ops_def)
  moreover have "rounded_average exact_ops consistency_rows ''A'' = 5 / 2"
    by (simp add: rounded_average_def consistency_scores exact_means)
       (simp add: exact_ops_def round_half_even_def)
  ultimately show ?thesis by (simp add: r)
qed

section \<open>The exporter\<close>

lemma writerows_uniform:
  assumes "\<forall>r \<in> set records. set (map fst r) \<subseteq> set fieldnames"
  shows "writerows fieldnames content records
           = (None, content @ map (row_of fieldnames) records)"
  using assms
proof (induction records arbitrary: content)
  case Nil
  then show ?case by simp
next
  case (Cons r records)
  then have "dict_to_list fieldnames r = Inr (row_of fieldnames r)"
    by (auto simp: dict_to_list_def row_of_def)
  with Cons show ?case by simp
qed

text \<open>
  Claim C8, as amended. On an empty sequence the CSV export prints its notice, writes no
  file and returns, and the JSON export writes the text \<open>[]\<close> and raises nothing. On a
  non-empty sequence in which no record has a key outside the keys of the first record,
  the CSV export writes the header of the first record's keys followed by one row per
  record, a record lacking a column getting an empty cell there.
\<close>

theorem exporter_output:
  "write_csv [] output_path w = (None, w\<lparr>stdout := stdout w @ [''No records to export'']\<rparr>)
   \<and> files (snd (write_csv [] output_path w)) = files w
   \<and> write_json enc [] output_path w
       = (None, w\<lparr>files := (files w)(output_path \<mapsto> TextFile ''[]'')\<rparr>)
   \<and> (records \<noteq> [] \<and> (\<forall>r \<in> set records. set (map fst r) \<subseteq> set (map fst (hd records)))
        \<longrightarrow> write_csv records output_path w
             = (None, w\<lparr>files := (files w)(output_path \<mapsto>
                  CsvFile (map Name (map fst (hd records))
                           # map (row_of (map fst (hd records))) records))\<rparr>))"
proof -
  have "write_csv records output_path w
             = (None, w\<lparr>files := (files w)(output_path \<mapsto>
                  CsvFile (map Name (map fst (hd records))
                           # map (row_of (map fst (hd records))) records))\<rparr>)"
    if "records \<noteq> []" "\<forall>r \<in> set records. set (map fst r) \<subseteq> set (map fst (hd records))"
  proof -
    from that(1) obtain first rest where r: "records = first # rest"
      by (cases records) auto
    have "writerows (map fst first) [map Name (map fst first)] (first # rest)
            = (None, [map Name (map fst first)] @ map (row_of (map fst first)) (first # rest))"
      using that(2) unfolding r by (intro writerows_uniform) simp
    then show ?thesis
      by (simp add: write_csv_def r Let_def del: writerows.simps)
  qed
  then show ?thesis
    by (simp add: write_csv_def write_json_def json_dump_list_def)
qed

theorem exporter_output_witness:
  "[[(''a'', 1::int), (''b'', 3)], [(''b'', 2)]] \<noteq> []
   \<and> write_csv [[(''a'', 1::int), (''b'', 3)], [(''b'', 2)]] ''out.csv'' empty_world
       = (None, empty_world\<lparr>files := (files empty_world)(''out.csv'' \<mapsto>
            CsvFile [[Name ''a'', Name ''b''], [Value 1, Value 3], [Restval, Value 2]])\<rparr>)
   \<and> files (snd (write_csv ([] :: (string, int) pydict list) ''out.csv'' empty_world)) ''out.csv'' = None
   \<and> files (snd (write_json (\<lambda>r. ''{}'') ([] :: (string, int) pydict list) ''out.json'' empty_world))
         ''out.json'' = Some (TextFile ''[]'')"
  using exporter_output [of "''out.csv''" empty_world "\<lambda>r. ''{}''"
      "[[(''a'', 1::int), (''b'', 3)], [(''b'', 2)]]"]
    exporter_output [of "''out.json''" "empty_world :: int world" "\<lambda>r. ''{}''" "[]"]
  by (simp add: row_of_def empty_world_def)

text \<open>
  A second record with a key the first one lacks: the export raises \<open>ValueError\<close> and
  the file keeps the header and the first row only.
\<close>

theorem exporter_output_counterexample:
  "fst (write_csv [[(''a'', 1::int)], [(''b'', 2)]] ''out.csv'' empty_world) = Some ValueError
   \<and> files (snd (write_csv [[(''a'', 1::int)], [(''b'', 2)]] ''out.csv'' empty_world)) ''out.csv''
       = Some (CsvFile [[Name ''a''], [Value 1]])"
  by (simp add: write_csv_def dict_to_list_def empty_world_def)

section \<open>The week window\<close>

subsection \<open>Decimal digits\<close>

lemma below_ten:
  assumes "d < 10"
  shows "d = 0 \<or> d = 1 \<or> d = 2 \<or> d = 3 \<or> d = 4 \<or> d = 5 \<or> d = 6 \<or> d = 7 \<or> d = 8 \<or> d = (9::nat)"
  using assms by arith

lemma digit_char_is_digit: "d < 10 \<Longrightarrow> is_digit (digit_char d)"
  by (drule below_ten) (elim disjE; simp add: digit_char_def is_digit_def)

lemma digit_char_low: "d < 10 \<Longrightarrow> (digit_char d \<in> set ''01234'') = (d \<le> 4)"
  by (drule below_ten) (elim disjE; simp add: digit_char_def)

lemma digit_char_lowest: "d < 10 \<Longrightarrow> (digit_char d \<in> set ''0123'') = (d \<le> 3)"
  by (drule below_ten) (elim disjE; simp add: digit_char_def)

lemma digit_char_five: "d < 10 \<Longrightarrow> (digit_char d = CHR ''5'') = (d = 5)"
  by (drule below_ten) (elim disjE; simp add: digit_char_def)

lemma minus_is_no_digit: "\<not> is_digit CHR ''-''"
  by (simp add: is_digit_def)

lemma digits_small: "n < 10 \<Longrightarrow> digits n = [digit_char n]"
  by (subst digits.simps) simp

lemma digits_large: "10 \<le> n \<Longrightarrow> digits n = digits (n div 10) @ [digit_char (n mod 10)]"
  by (subst digits.simps) simp

lemma digits_are_digits: "c \<in> set (digits n) \<Longrightarrow> is_digit c"
proof (induction n arbitrary: c rule: digits.induct)
  case (1 n)
  show ?case
  proof (cases "n < 10")
    case True
    with "1.prems" show ?thesis by (simp add: digits_small digit_char_is_digit)
  next
    case False
    with "1.prems" "1.IH" show ?thesis
      by (auto simp: digits_large digit_char_is_digit)
  qed
qed

lemma length_digits_positive: "0 < length (digits n)"
  by (cases "n < 10") (simp_all add: digits_small digits_large)

lemma length_digits_two: "(length (digits n) = 2) = (10 \<le> n \<and> n < 100)"
proof (cases "n < 10")
  case True
  then show ?thesis by (simp add: digits_small)
next
  case False
  then have n: "10 \<le> n" by simp
  show ?thesis
  proof (cases "n div 10 < 10")
    case True
    moreover have "length (digits n) = length (digits (n div 10)) + 1"
      using n by (simp add: digits_large)
    moreover have "n < 100" using True by arith
    ultimately show ?thesis using n by (simp add: digits_small)
  next
    case False
    then have "10 \<le> n div 10" by simp
    then have "length (digits (n div 10)) \<ge> 2"
      using length_digits_positive [of "n div 10 div 10"]
      by (simp add: digits_large [of "n div 10"] Suc_le_eq)
    moreover have "length (digits n) = length (digits (n div 10)) + 1"
      using n by (simp add: digits_large)
    moreover have "\<not> n < 100" using False by arith
    ultimately show ?thesis by simp
  qed
qed

lemma two_digits:
  assumes "10 \<le> n" "n < 100"
  shows "digits n = [digit_char (n div 10), digit_char (n mod 10)]"
proof -
  from assms have "n div 10 < 10" by arith
  with assms show ?thesis by (simp add: digits_large digits_small)
qed

subsection \<open>Week numbers the format refuses\<close>

lemma match_W2_digits:
  assumes "t < 10" "u < 10"
  shows "match_W2 (digit_char t) (digit_char u) = (t = 5 \<and> u \<le> 3 \<or> t \<le> 4)"
  unfolding match_W2_def
  by (simp only: digit_char_five [OF assms(1)] digit_char_low [OF assms(1)]
      digit_char_lowest [OF assms(2)] digit_char_is_digit [OF assms(2)] simp_thms)

lemma fmt_02d_refused:
  assumes "week < 0 \<or> 53 < week" and "fmt_02d week = [a, b]"
  shows "\<not> match_W2 a b"
proof (cases "week < 0")
  case True
  with assms(2) have "a = CHR ''-''" by (simp add: fmt_02d_def)
  then show ?thesis by (simp add: match_W2_def)
next
  case False
  with assms(1) have big: "53 < week" by simp
  then have eq: "fmt_02d week = digits (nat week)" by (simp add: fmt_02d_def)
  with assms(2) have "length (digits (nat week)) = 2" by simp
  then have range: "10 \<le> nat week" "nat week < 100" by (simp_all add: length_digits_two)
  then have "[a, b] = [digit_char (nat week div 10), digit_char (nat week mod 10)]"
    using assms(2) eq two_digits by simp
  moreover have "nat week div 10 < 10" "nat week mod 10 < 10" using range by arith+
  moreover have "\<not> (nat week div 10 = 5 \<and> nat week mod 10 \<le> 3 \<or> nat week div 10 \<le> 4)"
  proof -
    have "54 \<le> nat week" using big by simp
    moreover have "nat week = 10 * (nat week div 10) + nat week mod 10" by simp
    moreover have "nat week mod 10 < 10" by simp
    ultimately show ?thesis by linarith
  qed
  ultimately show ?thesis by (simp add: match_W2_digits)
qed

lemma length_fmt_02d: "2 \<le> length (fmt_02d week)"
proof -
  have "0 < length (digits n)" for n by (rule length_digits_positive)
  moreover have "2 \<le> length (digits (nat week))" if "10 \<le> week"
    using that length_digits_positive [of "nat week div 10"]
    by (simp add: digits_large [of "nat week"] Suc_le_eq)
  ultimately show ?thesis
    by (auto simp: fmt_02d_def Suc_le_eq)
qed

lemma match_Inr_shape:
  assumes "match_Y_W_w s = Inr r"
  shows "\<exists>y1 y2 y3 y4 cw rest.
           s = y1 # y2 # y3 # y4 # CHR ''-'' # cw # rest
           \<and> is_digit y1 \<and> is_digit y2 \<and> is_digit y3 \<and> is_digit y4
           \<and> ((\<exists>a b w. rest = [a, b, CHR ''-'', w] \<and> match_W2 a b)
                \<or> (\<exists>a w. rest = [a, CHR ''-'', w] \<and> is_digit a))"
  using assms
  by (cases s rule: match_Y_W_w.cases) (auto split: if_splits list.splits simp: Let_def)

lemma match_error: "match_Y_W_w s = Inl e \<Longrightarrow> e = ValueError"
  by (cases s rule: match_Y_W_w.cases) (auto split: if_splits list.splits simp: Let_def)

lemma week_refused:
  assumes "week < 0 \<or> 53 < week"
  shows "match_Y_W_w (str_int y @ ''-W'' @ fmt_02d week @ ''-1'') = Inl ValueError"
proof (cases "match_Y_W_w (str_int y @ ''-W'' @ fmt_02d week @ ''-1'')")
  case (Inl e)
  then show ?thesis using match_error by blast
next
  case (Inr r)
  let ?ws = "fmt_02d week"
  from match_Inr_shape [OF Inr] obtain y1 y2 y3 y4 cw rest where
    s: "str_int y @ ''-W'' @ ?ws @ ''-1'' = y1 # y2 # y3 # y4 # CHR ''-'' # cw # rest"
    and d: "is_digit y1" "is_digit y2" "is_digit y3" "is_digit y4"
    and shape: "(\<exists>a b w. rest = [a, b, CHR ''-'', w] \<and> match_W2 a b)
                \<or> (\<exists>a w. rest = [a, CHR ''-'', w] \<and> is_digit a)"
    by blast
  have nonneg: "\<not> y < 0"
  proof
    assume "y < 0"
    then have "hd (str_int y @ ''-W'' @ ?ws @ ''-1'') = CHR ''-''"
      by (simp add: str_int_def)
    with s d(1) show False by (simp add: minus_is_no_digit)
  qed
  then have "str_int y = digits (nat y)" by (simp add: str_int_def)
  then have "dropWhile is_digit (str_int y @ ''-W'' @ ?ws @ ''-1'')
               = dropWhile is_digit (''-W'' @ ?ws @ ''-1'')"
    by (simp only: dropWhile_append2 [OF digits_are_digits])
  also have "\<dots> = ''-W'' @ ?ws @ ''-1''"
    by (simp add: minus_is_no_digit)
  finally have "dropWhile is_digit (y1 # y2 # y3 # y4 # CHR ''-'' # cw # rest)
                  = ''-W'' @ ?ws @ ''-1''"
    by (simp only: s)
  then have rest: "rest = ?ws @ ''-1''"
    using d by (simp add: minus_is_no_digit)
  then have ws: "butlast (butlast rest) = ?ws"
    by (simp add: butlast_append)
  from shape show ?thesis
  proof
    assume "\<exists>a b w. rest = [a, b, CHR ''-'', w] \<and> match_W2 a b"
    then obtain a b w where "rest = [a, b, CHR ''-'', w]" and m: "match_W2 a b" by blast
    with ws have "?ws = [a, b]" by simp
    from fmt_02d_refused [OF assms this] m show ?thesis by simp
  next
    assume "\<exists>a w. rest = [a, CHR ''-'', w] \<and> is_digit a"
    then obtain a w where "rest = [a, CHR ''-'', w]" by blast
    with ws have "?ws = [a]" by simp
    with length_fmt_02d [of week] show ?thesis by simp
  qed
qed

lemma week_range_refused:
  assumes "week < 0 \<or> 53 < week"
  shows "get_week_date_range y week = Inl ValueError"
  unfolding get_week_date_range_def strptime_Y_W_w_def
  by (simp only: week_refused [OF assms] sum.case)

lemma month_range_refused:
  assumes "m < 1 \<or> 12 < m"
  shows "get_month_date_range y m = Inl (IllegalMonthError m)"
  using assms by (auto simp: get_month_date_range_def monthrange_def Let_def)

subsection \<open>Concrete weeks\<close>

lemmas calendar_defs =
  date_new_def MINYEAR_def MAXYEAR_def MAXORDINAL_def days_in_month_def mdays_def isleap_def
  weekday_def toordinal_def ymd2ord_def days_before_year_def days_before_month_def
  DAYS_BEFORE_MONTH_def calc_julian_from_W_def fromordinal_def ord2ymd_def DI400Y_def
  DI100Y_def DI4Y_def add_days_def strftime_Ymd_def Let_def

lemmas text_defs =
  str_int_def fmt_02d_def digits.simps digit_char_def is_digit_def digit_val_def
  match_W2_def match_w_def

lemma week_2025_0: "get_week_date_range 2025 0 = Inr (''2024-12-30'', ''2025-01-05'')"
  by (simp add: get_week_date_range_def strptime_Y_W_w_def text_defs calendar_defs)

text \<open>
  Claim C1. The function documents its argument as an ISO week, yet for year 2025 and
  week 1 it returns the window starting on Monday 2025-01-06, while ISO-8601 week 1 of
  2025 starts on Monday 2024-12-30: the format \<open>%W\<close> counts weeks from the first
  Monday of the year. The end date is the start date plus 6 days in both.
\<close>

theorem week_start_is_not_iso:
  "get_week_date_range 2025 1 = Inr (''2025-01-06'', ''2025-01-12'')
   \<and> iso_week_range 2025 1 = Inr (''2024-12-30'', ''2025-01-05'')"
  by (simp add: get_week_date_range_def strptime_Y_W_w_def iso_week_range_def
      iso_week_monday_def text_defs calendar_defs)

text \<open>
  What the resolvers refuse: a month outside 1..12 makes the month resolver raise
  \<open>IllegalMonthError\<close> (a \<open>ValueError\<close>) and a week below 0 or above 53 makes the week
  resolver raise \<open>ValueError\<close>, whatever the year; the report tool then stops before any
  query is sent to the store.
\<close>

lemma out_of_range_periods_refused:
  "(m < 1 \<or> 12 < m \<longrightarrow>
      get_month_date_range y m = Inl (IllegalMonthError m)
      \<and> monthly_main F db y m = (Inl (IllegalMonthError m), []))
   \<and> (week < 0 \<or> 53 < week \<longrightarrow>
      get_week_date_range y week = Inl ValueError
      \<and> weekly_main F db y week = (Inl ValueError, []))"
  by (simp add: monthly_main_def weekly_main_def month_range_refused week_range_refused)

lemma month_13_and_week_54_refused:
  "get_month_date_range 2024 13 = Inl (IllegalMonthError 13)
   \<and> monthly_main exact_ops (Some scenario_store) 2024 13 = (Inl (IllegalMonthError 13), [])
   \<and> get_week_date_range 2024 54 = Inl ValueError
   \<and> weekly_main exact_ops (Some scenario_store) 2024 54 = (Inl ValueError, [])"
  using out_of_range_periods_refused [of 13 2024 exact_ops "Some scenario_store" 54]
  by simp

text \<open>
  Claim C2. A week outside 1..53 has to be refused before any query is sent, and the
  function documents its argument as \<open>ISO week number (1-53)\<close>. Week 0 is not refused:
  the format \<open>%W\<close> accepts it as the days before the first Monday of the year, so for
  year 2025 and week 0 the function returns the window from 2024-12-30 to 2025-01-05,
  which is the window of ISO-8601 week 1 of 2025, and the report tool sends its two
  queries to the store. This is the use of \<open>%W\<close> for an ISO week that also shifts the
  window of week 1.
\<close>

theorem week_zero_accepted:
  "get_week_date_range 2025 0 = Inr (''2024-12-30'', ''2025-01-05'')
   \<and> iso_week_range 2025 1 = Inr (''2024-12-30'', ''2025-01-05'')
   \<and> snd (weekly_main exact_ops (Some scenario_store) 2025 0)
       = [ScoresQuery ''2024-12-30'' ''2025-01-05'', PlayersQuery]"
  by (simp add: weekly_main_def week_2025_0 weekly_report_value)
    (simp add: iso_week_range_def iso_week_monday_def text_defs calendar_defs)

end
